theory Spec2Isabelle
  imports Complex_Main "HOL-Library.Sublist"
begin

section \<open>Python values\<close>

text \<open>
  Every value the application handles comes out of \<^verbatim>\<open>response.json()\<close> or is a string
  typed by the user. \<open>json\<close> is the Python value a JSON text decodes to: \<open>JNull\<close> is
  \<^verbatim>\<open>None\<close>, \<open>JObj\<close> is a \<^verbatim>\<open>dict\<close> given by its \<^verbatim>\<open>items()\<close> (keys are strings, in
  insertion order, each key once), \<open>JArr\<close> is a \<^verbatim>\<open>list\<close>. A \<open>string\<close> holds the UTF-8
  bytes of a Python \<^verbatim>\<open>str\<close>. No arithmetic is done on floats anywhere in the program;
  a float only needs its truth value, so it is a rational or one of the three special
  values the decoder accepts.
\<close>

datatype pyfloat = Finite rat | PosInf | NegInf | NaN

datatype json =
    JNull
  | JBool bool
  | JInt int
  | JFloat pyfloat
  | JStr string
  | JArr "json list"
  | JObj "(string \<times> json) list"

text \<open>The exceptions that can leave a line of \<^verbatim>\<open>app.py\<close>, with what \<^verbatim>\<open>str(e)\<close> of a
  \<^verbatim>\<open>RequestException\<close> is made from. \<open>RerunException\<close> is how \<^verbatim>\<open>st.rerun()\<close> stops the
  run of the script. \<open>LibraryError\<close> is an exception raised inside a call of pandas,
  Streamlit or Matplotlib on the data it is given, whatever its class. \<open>NotModelled\<close> is
  not an exception of the program: it ends a run of the model where the behaviour of a
  library on the data at hand is not part of this model, and nothing is stated about
  such runs.\<close>

datatype req_failure = Transport string | HTTPError nat | JSONDecodeError

datatype exn =
    RequestException req_failure
  | KeyError
  | TypeError
  | AttributeError
  | IndexError
  | RerunException
  | LibraryError
  | NotModelled

text \<open>An f-string is kept as its pieces: literal text, \<^verbatim>\<open>str()\<close> of an interpolated value,
  \<^verbatim>\<open>str()\<close> of a caught exception.\<close>

datatype frag = Lit string | Val json | Err req_failure

type_synonym fstring = "frag list"

text \<open>Truth value of a Python object (\<^verbatim>\<open>if x:\<close>, \<^verbatim>\<open>not x\<close>).\<close>

fun truthy :: "json \<Rightarrow> bool" where
  "truthy JNull = False"
| "truthy (JBool b) = b"
| "truthy (JInt i) = (i \<noteq> 0)"
| "truthy (JFloat (Finite q)) = (q \<noteq> 0)"
| "truthy (JFloat _) = True"
| "truthy (JStr s) = (s \<noteq> [])"
| "truthy (JArr xs) = (xs \<noteq> [])"
| "truthy (JObj kvs) = (kvs \<noteq> [])"

text \<open>\<^verbatim>\<open>x[0]\<close>. A string yields its first code point, that is the first byte and the
  continuation bytes after it. A dict has string keys only, so key \<^verbatim>\<open>0\<close> is missing.\<close>

definition utf8_continuation :: "char \<Rightarrow> bool" where
  "utf8_continuation c = (128 \<le> (of_char c :: nat) \<and> (of_char c :: nat) < 192)"

fun getitem0 :: "json \<Rightarrow> exn + json" where
  "getitem0 (JArr []) = Inl IndexError"
| "getitem0 (JArr (x # xs)) = Inr x"
| "getitem0 (JStr []) = Inl IndexError"
| "getitem0 (JStr (c # cs)) = Inr (JStr (c # takeWhile utf8_continuation cs))"
| "getitem0 (JObj kvs) = Inl KeyError"
| "getitem0 _ = Inl TypeError"

text \<open>\<^verbatim>\<open>x['key']\<close>: only a dict can be indexed by a string.\<close>

fun getitem :: "json \<Rightarrow> string \<Rightarrow> exn + json" where
  "getitem (JObj kvs) k = (case map_of kvs k of None \<Rightarrow> Inl KeyError | Some v \<Rightarrow> Inr v)"
| "getitem _ k = Inl TypeError"

text \<open>\<^verbatim>\<open>x.get('key', default)\<close>: only a dict has the method.\<close>

fun get :: "json \<Rightarrow> string \<Rightarrow> json \<Rightarrow> exn + json" where
  "get (JObj kvs) k d = (case map_of kvs k of None \<Rightarrow> Inr d | Some v \<Rightarrow> Inr v)"
| "get _ k d = Inl AttributeError"

text \<open>\<^verbatim>\<open>x.items()\<close>.\<close>

fun items :: "json \<Rightarrow> exn + (string \<times> json) list" where
  "items (JObj kvs) = Inr kvs"
| "items _ = Inl AttributeError"

text \<open>\<^verbatim>\<open>s.split(sep)\<close> for a separator of one ASCII character: the pieces between the
  occurrences of the separator, never an empty list. Splitting the UTF-8 bytes at an
  ASCII byte splits at the same places as splitting the code points.\<close>

fun split_on :: "char \<Rightarrow> string \<Rightarrow> string list" where
  "split_on sep [] = [[]]"
| "split_on sep (c # cs) =
     (if c = sep then [] # split_on sep cs
      else (case split_on sep cs of
              [] \<Rightarrow> [[c]]
            | piece # pieces \<Rightarrow> (c # piece) # pieces))"

fun split :: "json \<Rightarrow> char \<Rightarrow> exn + string list" where
  "split (JStr s) sep = Inr (split_on sep s)"
| "split _ sep = Inl AttributeError"

section \<open>State, effects and exceptions\<close>

text \<open>
  The three endpoints. The base URL and the bearer token are read once at start-up and
  are the same in every request, so a request is told apart by its path and the value
  interpolated into it:
  \<^item> \<open>UsersByUsername u\<close> is \<^verbatim>\<open>{GITLAB_URL}/api/v4/users?username={u}\<close>,
  \<^item> \<open>UserProjects i\<close> is \<^verbatim>\<open>{GITLAB_URL}/api/v4/users/{i}/projects?statistics=true&per_page=100\<close>,
  \<^item> \<open>ProjectLanguages i\<close> is \<^verbatim>\<open>{GITLAB_URL}/api/v4/projects/{i}/languages\<close>.
\<close>

datatype api_url = UsersByUsername string | UserProjects json | ProjectLanguages json

text \<open>What \<^verbatim>\<open>requests.get\<close> does: it raises a \<^verbatim>\<open>RequestException\<close>, or it returns a
  response with a status code and a body that is JSON text or is not (\<open>None\<close>).\<close>

datatype http_result = Raised string | Response nat "json option"

record response =
  status_code :: nat
  body :: "json option"

text \<open>The network answers a request knowing every request made before it.\<close>

type_synonym net = "api_url list \<Rightarrow> api_url \<Rightarrow> http_result"

text \<open>Where a Streamlit element is drawn: the stack of \<^verbatim>\<open>with\<close> blocks around the call.\<close>

datatype container = Column nat | Expander string | Spinner fstring | ChatMessage string

text \<open>The data of a chart: a \<open>frame\<close> is a table with named columns and one row per index
  entry, a cell being \<open>None\<close> where the record of the row has no such key; a \<open>figure\<close> is a
  pie with its labelled slices and its title.\<close>

record frame =
  columns :: "string list"
  index :: "json option list"
  rows :: "json option list list"

record figure =
  slices :: "(string \<times> json) list"
  fig_title :: json

text \<open>The elements drawn, with the arguments of the call. \<open>Columns\<close> carries the relative
  widths of the columns created (\<^verbatim>\<open>st.columns(3)\<close> creates three of equal width), \<open>Image\<close>
  the source and the width, \<open>Button\<close> and \<open>ChatInput\<close> their label.\<close>

datatype element =
    Title string
  | Subheader fstring
  | Markdown fstring
  | Warning string
  | Info string
  | Error fstring
  | Write fstring
  | Caption string
  | Image json nat
  | Json json
  | BarChart frame
  | Pyplot figure
  | Columns "nat list"
  | Button string
  | ChatInput string

record message =
  role :: string
  content :: fstring

text \<open>\<open>messages\<close> and \<open>user_data\<close> are \<^verbatim>\<open>st.session_state\<close>; \<open>calls\<close> is the log of the
  requests sent so far; \<open>screen\<close> is what the current run of the script has drawn;
  \<open>ctx\<close> is the stack of open \<^verbatim>\<open>with\<close> blocks.\<close>

record state =
  messages :: "message list"
  user_data :: json
  calls :: "api_url list"
  screen :: "(container list \<times> element) list"
  ctx :: "container list"

text \<open>A piece of the program: it runs in a state and ends with a value or with an
  exception raised, in a new state.\<close>

type_synonym 'a prog = "state \<Rightarrow> (exn + 'a) \<times> state"

definition returns :: "'a \<Rightarrow> 'a prog" where
  "returns x = (\<lambda>s. (Inr x, s))"

definition raises :: "exn \<Rightarrow> 'a prog" where
  "raises e = (\<lambda>s. (Inl e, s))"

definition lift :: "exn + 'a \<Rightarrow> 'a prog" where
  "lift r = (\<lambda>s. (r, s))"

definition and_then :: "'a prog \<Rightarrow> ('a \<Rightarrow> 'b prog) \<Rightarrow> 'b prog" where
  "and_then m f = (\<lambda>s. case m s of (Inl e, s') \<Rightarrow> (Inl e, s') | (Inr x, s') \<Rightarrow> f x s')"

text \<open>\<^verbatim>\<open>try: ... except requests.exceptions.RequestException as e: ...\<close>\<close>

definition try_except_request :: "'a prog \<Rightarrow> (req_failure \<Rightarrow> 'a prog) \<Rightarrow> 'a prog" where
  "try_except_request m h =
     (\<lambda>s. case m s of
            (Inl (RequestException e), s') \<Rightarrow> h e s'
          | r \<Rightarrow> r)"

text \<open>\<^verbatim>\<open>with c: ...\<close>: the block is left on every path.\<close>

definition with_block :: "container \<Rightarrow> 'a prog \<Rightarrow> 'a prog" where
  "with_block c m = (\<lambda>s. case m (s\<lparr>ctx := ctx s @ [c]\<rparr>) of (r, s') \<Rightarrow> (r, s'\<lparr>ctx := ctx s\<rparr>))"

text \<open>A Streamlit call that draws an element. Streamlit's own checks of its arguments
  are outside this model.\<close>

definition st :: "element \<Rightarrow> unit prog" where
  "st e = (\<lambda>s. (Inr (), s\<lparr>screen := screen s @ [(ctx s, e)]\<rparr>))"

section \<open>API helper functions\<close>

definition requests_get :: "net \<Rightarrow> api_url \<Rightarrow> response prog" where
  "requests_get nw url =
     (\<lambda>s. let s' = s\<lparr>calls := calls s @ [url]\<rparr> in
          case nw (calls s) url of
            Raised msg \<Rightarrow> (Inl (RequestException (Transport msg)), s')
          | Response code b \<Rightarrow> (Inr \<lparr>status_code = code, body = b\<rparr>, s'))"

text \<open>\<^verbatim>\<open>response.raise_for_status()\<close> raises for the 4xx and 5xx codes.\<close>

definition raise_for_status :: "response \<Rightarrow> unit prog" where
  "raise_for_status r =
     (if 400 \<le> status_code r \<and> status_code r < 600
      then raises (RequestException (HTTPError (status_code r)))
      else returns ())"

text \<open>\<^verbatim>\<open>response.json()\<close>: the decoding error of \<^verbatim>\<open>requests\<close> (2.27 and later) is a
  \<^verbatim>\<open>RequestException\<close>.\<close>

definition response_json :: "response \<Rightarrow> json prog" where
  "response_json r =
     (case body r of
        None \<Rightarrow> raises (RequestException JSONDecodeError)
      | Some j \<Rightarrow> returns j)"

definition fetch_gitlab_user :: "net \<Rightarrow> string \<Rightarrow> json prog" where
  "fetch_gitlab_user nw username =
     try_except_request
       (and_then (requests_get nw (UsersByUsername username)) (\<lambda>response.
        and_then (raise_for_status response) (\<lambda>_.
        and_then (response_json response) (\<lambda>users.
        if truthy users then lift (getitem0 users) else returns JNull))))
       (\<lambda>e. and_then (st (Error [Lit ''API Request Failed: '', Err e])) (\<lambda>_.
            returns JNull))"

definition fetch_user_projects :: "net \<Rightarrow> json \<Rightarrow> json prog" where
  "fetch_user_projects nw user_id =
     try_except_request
       (and_then (requests_get nw (UserProjects user_id)) (\<lambda>response.
        and_then (raise_for_status response) (\<lambda>_.
        response_json response)))
       (\<lambda>e. returns (JArr []))"

definition get_project_languages :: "net \<Rightarrow> json \<Rightarrow> json prog" where
  "get_project_languages nw project_id =
     try_except_request
       (and_then (requests_get nw (ProjectLanguages project_id)) (\<lambda>response.
        and_then (raise_for_status response) (\<lambda>_.
        response_json response)))
       (\<lambda>e. returns (JObj []))"

section \<open>UI rendering functions\<close>

text \<open>\<^verbatim>\<open>xs[0]\<close> on a list of strings.\<close>

fun first :: "'a list \<Rightarrow> exn + 'a" where
  "first [] = Inl IndexError"
| "first (x # xs) = Inr x"

text \<open>The value after \<^verbatim>\<open>**Joined:**\<close>:
  \<^verbatim>\<open>user.get('created_at', 'N/A').split('T')[0]\<close>.\<close>

definition joined :: "json \<Rightarrow> exn + string" where
  "joined user =
     (case get user ''created_at'' (JStr ''N/A'') of
        Inl e \<Rightarrow> Inl e
      | Inr created_at \<Rightarrow>
          (case split created_at (CHR ''T'') of
             Inl e \<Rightarrow> Inl e
           | Inr pieces \<Rightarrow> first pieces))"

definition display_full_profile :: "json \<Rightarrow> unit prog" where
  "display_full_profile user =
     and_then (lift (get user ''name'' JNull)) (\<lambda>name.
     and_then (st (Subheader [Lit ''Full Profile: '', Val name])) (\<lambda>_.
     and_then (st (Columns [1, 3])) (\<lambda>_.
     and_then (with_block (Column 0)
       (and_then (lift (get user ''avatar_url'' JNull)) (\<lambda>avatar.
        if truthy avatar
        then and_then (lift (getitem user ''avatar_url'')) (\<lambda>url. st (Image url 150))
        else returns ()))) (\<lambda>_.
     and_then (with_block (Column 1)
       (and_then (lift (get user ''username'' JNull)) (\<lambda>username.
        and_then (st (Markdown [Lit ''**Username:** `'', Val username, Lit ''`''])) (\<lambda>_.
        and_then (lift (get user ''id'' JNull)) (\<lambda>uid.
        and_then (st (Markdown [Lit ''**ID:** `'', Val uid, Lit ''`''])) (\<lambda>_.
        and_then (lift (get user ''state'' JNull)) (\<lambda>ustate.
        and_then (st (Markdown [Lit ''**State:** `'', Val ustate, Lit ''`''])) (\<lambda>_.
        and_then (lift (joined user)) (\<lambda>date.
        and_then (st (Markdown [Lit ''**Joined:** '', Val (JStr date)])) (\<lambda>_.
        and_then (lift (get user ''web_url'' JNull)) (\<lambda>web_url.
        st (Markdown [Lit ''**Profile:** [View on GitLab]('', Val web_url, Lit '')'']))))))))))))
       (\<lambda>_.
     with_block (Expander ''See all available profile details'') (st (Json user)))))))"

text \<open>
  \<^verbatim>\<open>pd.DataFrame(projects)\<close> for a list of dicts: one row per dict, one column per key
  that occurs in any of them, a missing entry where a dict lacks the key (\<open>None\<close> below;
  pandas stores NaN). What pandas makes of a value that is not a list of dicts is not
  modelled: the run ends with \<open>NotModelled\<close> there.
\<close>

fun record_of :: "json \<Rightarrow> (string \<times> json) list option" where
  "record_of (JObj kvs) = Some kvs"
| "record_of _ = None"

fun records_of :: "json \<Rightarrow> (string \<times> json) list list option" where
  "records_of (JArr xs) =
     (if list_all (\<lambda>x. record_of x \<noteq> None) xs then Some (map (\<lambda>x. the (record_of x)) xs)
      else None)"
| "records_of _ = None"

definition DataFrame :: "json \<Rightarrow> exn + (string \<times> json) list list" where
  "DataFrame data = (case records_of data of None \<Rightarrow> Inl NotModelled | Some recs \<Rightarrow> Inr recs)"

definition df_columns :: "(string \<times> json) list list \<Rightarrow> string list" where
  "df_columns df = rev (remdups (rev (concat (map (map fst) df))))"

text \<open>\<^verbatim>\<open>lambda x: x.get('commit_count', 0) if isinstance(x, dict) else 0\<close>, applied to a
  cell of the \<^verbatim>\<open>statistics\<close> column.\<close>

fun commit_count :: "json option \<Rightarrow> json" where
  "commit_count (Some (JObj kvs)) =
     (case map_of kvs ''commit_count'' of None \<Rightarrow> JInt 0 | Some v \<Rightarrow> v)"
| "commit_count _ = JInt 0"

text \<open>\<^verbatim>\<open>df_stats\<close> with \<^verbatim>\<open>name\<close> as its index, as the code builds it: the selection of
  the three columns raises \<^verbatim>\<open>KeyError\<close> when one of them is not a column; the
  \<^verbatim>\<open>commit_count\<close> column is added only when \<^verbatim>\<open>statistics\<close> is a column.\<close>

definition selection :: "(string \<times> json) list list \<Rightarrow> exn + frame" where
  "selection df =
     (if \<not> list_all (\<lambda>k. k \<in> set (df_columns df)) [''name'', ''star_count'', ''forks_count'']
      then Inl KeyError
      else if ''statistics'' \<in> set (df_columns df)
      then Inr \<lparr>columns = [''star_count'', ''forks_count'', ''commit_count''],
                index = map (\<lambda>p. map_of p ''name'') df,
                rows = map (\<lambda>p. [map_of p ''star_count'', map_of p ''forks_count'',
                                   Some (commit_count (map_of p ''statistics''))]) df\<rparr>
      else Inr \<lparr>columns = [''star_count'', ''forks_count''],
                index = map (\<lambda>p. map_of p ''name'') df,
                rows = map (\<lambda>p. [map_of p ''star_count'', map_of p ''forks_count'']) df\<rparr>)"

text \<open>
  pandas keeps the values of a column as they are when all of them are strings, or all
  of them are integers. Where a value is missing or null, or the values of a column are
  of different kinds, pandas converts the column (to floats with NaN, or to objects);
  these conversions are not modelled, and the frame is taken to be known only when its
  index holds strings and its cells hold integers.
\<close>

fun text_cell :: "json option \<Rightarrow> bool" where
  "text_cell (Some (JStr t)) = True"
| "text_cell _ = False"

fun int_cell :: "json option \<Rightarrow> bool" where
  "int_cell (Some (JInt i)) = True"
| "int_cell _ = False"

definition kept_as_is :: "frame \<Rightarrow> bool" where
  "kept_as_is data = (list_all text_cell (index data) \<and> list_all (list_all int_cell) (rows data))"

definition df_stats :: "(string \<times> json) list list \<Rightarrow> exn + frame" where
  "df_stats df =
     (case selection df of
        Inl e \<Rightarrow> Inl e
      | Inr data \<Rightarrow> if kept_as_is data then Inr data else Inl NotModelled)"

text \<open>
  \<^verbatim>\<open>st.bar_chart(data)\<close>. The chart is drawn when every cell is a count that fits a signed
  64-bit integer; the call raises when the cells are non-negative integers and one of them
  does not fit 64 bits. What Streamlit does with other data is not modelled.
\<close>

fun count_cell :: "json option \<Rightarrow> bool" where
  "count_cell (Some (JInt i)) = (0 \<le> i \<and> i < 2 ^ 63)"
| "count_cell _ = False"

fun whole_cell :: "json option \<Rightarrow> bool" where
  "whole_cell (Some (JInt i)) = (0 \<le> i)"
| "whole_cell _ = False"

fun beyond_64_bits :: "json option \<Rightarrow> bool" where
  "beyond_64_bits (Some (JInt i)) = (2 ^ 64 \<le> i)"
| "beyond_64_bits _ = False"

definition st_bar_chart :: "frame \<Rightarrow> unit prog" where
  "st_bar_chart data =
     (if list_all text_cell (index data) \<and> list_all (list_all count_cell) (rows data)
      then st (BarChart data)
      else if list_all text_cell (index data) \<and> list_all (list_all whole_cell) (rows data)
            \<and> list_ex (list_ex beyond_64_bits) (rows data)
      then raises LibraryError
      else raises NotModelled)"

text \<open>
  \<^verbatim>\<open>ax.pie(lang_df['Percentage'], labels=lang_df['Language'], ...)\<close> converts the sizes
  to single precision. Matplotlib raises when a size is negative, and when all of them
  are zero. The pie is made when every size is a percentage: a number that is zero or lies
  between a hundredth and a hundred, which the conversion keeps apart from zero. A size is
  known to be negative after the conversion when it is at most minus a hundredth. What
  Matplotlib does with other sizes (other numbers, strings, null, nested values) is not
  modelled.
\<close>

fun negative_size :: "json \<Rightarrow> bool" where
  "negative_size (JInt i) = (i < 0)"
| "negative_size (JFloat (Finite q)) = (q \<le> - (1 / 100))"
| "negative_size (JFloat NegInf) = True"
| "negative_size _ = False"

fun percentage :: "json \<Rightarrow> bool" where
  "percentage (JInt i) = (0 \<le> i \<and> i \<le> 100)"
| "percentage (JFloat (Finite q)) = (q = 0 \<or> (1 / 100 \<le> q \<and> q \<le> 100))"
| "percentage _ = False"

fun zero_size :: "json \<Rightarrow> bool" where
  "zero_size (JInt i) = (i = 0)"
| "zero_size (JFloat (Finite q)) = (q = 0)"
| "zero_size _ = False"

definition ax_pie :: "(string \<times> json) list \<Rightarrow> exn + unit" where
  "ax_pie lang_df =
     (if list_ex (\<lambda>(language, size). negative_size size) lang_df then Inl LibraryError
      else if list_all (\<lambda>(language, size). percentage size) lang_df
      then (if list_all (\<lambda>(language, size). zero_size size) lang_df then Inl LibraryError else Inr ())
      else Inl NotModelled)"

text \<open>
  \<^verbatim>\<open>st.pyplot(fig)\<close> renders the figure with its texts: the labels of the slices and the
  title. Matplotlib reads a dollar sign in a text as the start of a formula; how a text
  with a dollar sign, or a title that is not a string, is rendered is not modelled.
\<close>

definition plain :: "string \<Rightarrow> bool" where
  "plain t = (CHR ''$'' \<notin> set t)"

fun plain_text :: "json \<Rightarrow> bool" where
  "plain_text (JStr t) = plain t"
| "plain_text _ = False"

definition st_pyplot :: "figure \<Rightarrow> unit prog" where
  "st_pyplot fig =
     (if list_all (\<lambda>(language, size). plain language) (slices fig) \<and> plain_text (fig_title fig)
      then st (Pyplot fig)
      else raises NotModelled)"

text \<open>The body of the loop over \<^verbatim>\<open>projects[:9]\<close>, for one project in column \<open>col_idx\<close>.\<close>

definition language_panel :: "net \<Rightarrow> json \<Rightarrow> nat \<Rightarrow> unit prog" where
  "language_panel nw project col_idx =
     with_block (Column col_idx)
       (and_then (lift (getitem project ''name'')) (\<lambda>name.
        with_block (Spinner [Lit ''Getting languages for '', Val name, Lit ''...''])
          (and_then (lift (getitem project ''id'')) (\<lambda>pid.
           and_then (get_project_languages nw pid) (\<lambda>languages.
           if truthy languages
           then and_then (lift (items languages)) (\<lambda>lang_df.
                and_then (lift (ax_pie lang_df)) (\<lambda>_.
                and_then (lift (getitem project ''name'')) (\<lambda>title.
                st_pyplot \<lparr>slices = lang_df, fig_title = title\<rparr>)))
           else and_then (lift (getitem project ''name'')) (\<lambda>pname.
                and_then (st (Write [Lit ''**'', Val pname, Lit ''**''])) (\<lambda>_.
                st (Caption ''No language data available.''))))))))"

fun language_loop :: "net \<Rightarrow> json list \<Rightarrow> nat \<Rightarrow> unit prog" where
  "language_loop nw [] col_idx = returns ()"
| "language_loop nw (project # rest) col_idx =
     and_then (language_panel nw project col_idx) (\<lambda>_.
     language_loop nw rest ((col_idx + 1) mod 3))"

text \<open>\<^verbatim>\<open>projects[:9]\<close> of a list.\<close>

fun slice9 :: "json \<Rightarrow> exn + json list" where
  "slice9 (JArr xs) = Inr (take 9 xs)"
| "slice9 _ = Inl NotModelled"

definition display_project_visuals :: "net \<Rightarrow> json \<Rightarrow> unit prog" where
  "display_project_visuals nw projects =
     and_then (st (Subheader [Lit ''Project Visualizations''])) (\<lambda>_.
     if \<not> truthy projects
     then st (Warning ''No projects found that are visible to you.'')
     else
       and_then (lift (DataFrame projects)) (\<lambda>df.
       and_then (st (Markdown [Lit ''#### Project Popularity & Activity''])) (\<lambda>_.
       and_then (lift (df_stats df)) (\<lambda>stats.
       and_then (st_bar_chart stats) (\<lambda>_.
       and_then (st (Markdown [Lit ''#### Language Breakdown per Project (Matplotlib)''])) (\<lambda>_.
       and_then (st (Info ''Fetching language data for each project... this may take a moment.'')) (\<lambda>_.
       and_then (st (Columns [1, 1, 1])) (\<lambda>_.
       and_then (lift (slice9 projects)) (\<lambda>first9.
       language_loop nw first9 0)))))))))"

section \<open>Main app logic\<close>

definition gets :: "(state \<Rightarrow> 'a) \<Rightarrow> 'a prog" where
  "gets f = (\<lambda>s. (Inr (f s), s))"

definition set_user_data :: "json \<Rightarrow> unit prog" where
  "set_user_data u = (\<lambda>s. (Inr (), s\<lparr>user_data := u\<rparr>))"

definition add_message :: "string \<Rightarrow> fstring \<Rightarrow> unit prog" where
  "add_message r c = (\<lambda>s. (Inr (), s\<lparr>messages := messages s @ [\<lparr>role = r, content = c\<rparr>]\<rparr>))"

definition greeting :: message where
  "greeting = \<lparr>role = ''assistant'',
               content = [Lit ''Hi there! Enter a GitLab username to begin profiling.'']\<rparr>"

fun render_messages :: "message list \<Rightarrow> unit prog" where
  "render_messages [] = returns ()"
| "render_messages (m # ms) =
     and_then (with_block (ChatMessage (role m)) (st (Markdown (content m)))) (\<lambda>_.
     render_messages ms)"

text \<open>What the user did to start this run of the script: the text submitted in the chat
  input (\<open>None\<close> when nothing was submitted) and the buttons clicked.\<close>

record input =
  prompt :: "string option"
  view_profile :: bool
  view_visuals :: bool

definition no_input :: input where
  "no_input = \<lparr>prompt = None, view_profile = False, view_visuals = False\<rparr>"

text \<open>The block under \<^verbatim>\<open>if prompt := st.chat_input(...)\<close>.\<close>

definition handle_prompt :: "net \<Rightarrow> string \<Rightarrow> unit prog" where
  "handle_prompt nw p =
     and_then (add_message ''user'' [Lit p]) (\<lambda>_.
     and_then (set_user_data JNull) (\<lambda>_.
     and_then (with_block (Spinner [Lit (''Searching for '' @ [CHR 0x27]), Val (JStr p),
                                    Lit (CHR 0x27 # ''...'')])
       (and_then (fetch_gitlab_user nw p) (\<lambda>found.
        if truthy found
        then and_then (set_user_data found) (\<lambda>_.
             and_then (lift (getitem found ''name'')) (\<lambda>name.
             and_then (lift (getitem found ''username'')) (\<lambda>username.
             add_message ''assistant''
               [Lit ''Found user **'', Val name, Lit ''** (`'', Val username,
                Lit ''`). What would you like to see?''])))
        else add_message ''assistant''
               [Lit (''Sorry, I couldn't find a user with the username '' @ [CHR 0x27]),
                Val (JStr p), Lit (CHR 0x27 # ''.'')]))) (\<lambda>_.
     raises RerunException)))"

text \<open>The block under \<^verbatim>\<open>if st.session_state.user_data:\<close>.\<close>

definition view_buttons :: "net \<Rightarrow> input \<Rightarrow> unit prog" where
  "view_buttons nw inp =
     and_then (st (Markdown [Lit ''---''])) (\<lambda>_.
     and_then (st (Columns [1, 1, 2])) (\<lambda>_.
     and_then (with_block (Column 0)
       (and_then (st (Button ([CHR 0xF0, CHR 0x9F, CHR 0x91, CHR 0xA4] @ '' View Full Profile''))) (\<lambda>_.
        if view_profile inp
        then and_then (gets user_data) (\<lambda>user. display_full_profile user)
        else returns ()))) (\<lambda>_.
     with_block (Column 1)
       (and_then (st (Button ([CHR 0xF0, CHR 0x9F, CHR 0x93, CHR 0x8A] @ '' View Project Visuals''))) (\<lambda>_.
        if view_visuals inp
        then and_then (gets user_data) (\<lambda>user.
             and_then (lift (getitem user ''id'')) (\<lambda>uid.
             and_then (fetch_user_projects nw uid) (\<lambda>projects.
             display_project_visuals nw projects)))
        else returns ())))))"

text \<open>One run of the script from the title on. Lines 19 to 23 create the two keys of the
  session state in the first run (\<open>new_session\<close>) and do nothing afterwards; loading the
  environment and configuring the page draw nothing.\<close>

definition script :: "net \<Rightarrow> input \<Rightarrow> unit prog" where
  "script nw inp =
     and_then (st (Title ([CHR 0xF0, CHR 0x9F, CHR 0xA4, CHR 0x96] @ '' GitLab Advanced Profiler''))) (\<lambda>_.
     and_then (gets messages) (\<lambda>ms.
     and_then (if ms = [] then add_message (role greeting) (content greeting) else returns ()) (\<lambda>_.
     and_then (gets messages) (\<lambda>ms.
     and_then (render_messages ms) (\<lambda>_.
     and_then (st (ChatInput ''Enter a username...'')) (\<lambda>_.
     and_then (case prompt inp of
                 None \<Rightarrow> returns ()
               | Some p \<Rightarrow> if p \<noteq> [] then handle_prompt nw p else returns ()) (\<lambda>_.
     and_then (gets user_data) (\<lambda>user.
     if truthy user then view_buttons nw inp else returns ()))))))))"

definition new_session :: "api_url list \<Rightarrow> state" where
  "new_session history = \<lparr>messages = [], user_data = JNull, calls = history, screen = [], ctx = []\<rparr>"

text \<open>A run starts on an empty page.\<close>

definition run :: "net \<Rightarrow> input \<Rightarrow> state \<Rightarrow> (exn + unit) \<times> state" where
  "run nw inp s = script nw inp (s\<lparr>screen := [], ctx := []\<rparr>)"

text \<open>One interaction: the run the user's action starts and, when that run ends in
  \<^verbatim>\<open>st.rerun()\<close>, the run that follows it with no new input.\<close>

definition interaction :: "net \<Rightarrow> input \<Rightarrow> state \<Rightarrow> (exn + unit) \<times> state" where
  "interaction nw inp s =
     (case run nw inp s of
        (Inl RerunException, s') \<Rightarrow> run nw no_input s'
      | r \<Rightarrow> r)"

text \<open>The state of a session after a sequence of interactions, each with the network as
  it is then; \<open>history\<close> is the log of requests when the session starts.\<close>

definition session_after :: "api_url list \<Rightarrow> (net \<times> input) list \<Rightarrow> state" where
  "session_after history steps =
     foldl (\<lambda>s (nw, inp). snd (interaction nw inp s)) (new_session history) steps"

section \<open>Notions used in the statements\<close>

text \<open>What a piece of the program has added to the screen.\<close>

definition drawn :: "'a prog \<Rightarrow> state \<Rightarrow> (container list \<times> element) list" where
  "drawn m s = drop (length (screen s)) (screen (snd (m s)))"

text \<open>A field of a record, with a default for a missing key.\<close>

definition get_or :: "(string \<times> json) list \<Rightarrow> string \<Rightarrow> json \<Rightarrow> json" where
  "get_or kvs k d = (case map_of kvs k of None \<Rightarrow> d | Some v \<Rightarrow> v)"

text \<open>The request for the language breakdown of a project.\<close>

definition languages_request :: "(string \<times> json) list \<Rightarrow> api_url" where
  "languages_request p = ProjectLanguages (get_or p ''id'' JNull)"

text \<open>A record with the fields of the bar chart as the data model types them: a name
  that is a string, a star count and a fork count that are non-negative integers of 64
  bits, and statistics that are absent, or malformed, or carry such a commit count.\<close>

definition has_chart_fields :: "(string \<times> json) list \<Rightarrow> bool" where
  "has_chart_fields p =
     (text_cell (map_of p ''name'') \<and> count_cell (map_of p ''star_count'')
      \<and> count_cell (map_of p ''forks_count'')
      \<and> count_cell (Some (commit_count (map_of p ''statistics''))))"

text \<open>A project of the data model: it has the fields of the bar chart and an id, and its
  name has no dollar sign.\<close>

definition is_project :: "(string \<times> json) list \<Rightarrow> bool" where
  "is_project p =
     (has_chart_fields p \<and> map_of p ''id'' \<noteq> None \<and> plain_text (get_or p ''name'' JNull))"

text \<open>A non-empty language breakdown of the data model: a mapping from language names
  without dollar sign to percentages, one of them positive.\<close>

fun breakdown :: "json \<Rightarrow> bool" where
  "breakdown (JObj kvs) =
     (kvs \<noteq> [] \<and> list_all (\<lambda>(language, size). plain language \<and> percentage size) kvs
      \<and> list_ex (\<lambda>(language, size). \<not> zero_size size) kvs)"
| "breakdown _ = False"

text \<open>An answer of the languages endpoint that is a failure \<open>get_project_languages\<close>
  catches, the empty mapping, or a non-empty language breakdown.\<close>

fun languages_reply :: "http_result \<Rightarrow> bool" where
  "languages_reply (Raised msg) = True"
| "languages_reply (Response code None) = True"
| "languages_reply (Response code (Some j)) =
     ((400 \<le> code \<and> code < 600) \<or> j = JObj [] \<or> breakdown j)"

text \<open>An answer of the languages endpoint that carries a non-empty language breakdown.\<close>

fun languages_chart :: "http_result \<Rightarrow> bool" where
  "languages_chart (Response code (Some j)) = (breakdown j \<and> \<not> (400 \<le> code \<and> code < 600))"
| "languages_chart _ = False"

text \<open>What a fail-soft helper with default \<open>d\<close> makes of an answer of the network, as the
  specification has it: the default on a transport failure, on a 4xx or 5xx status and
  on a body that is not JSON, the decoded body otherwise.\<close>

fun body_or :: "json \<Rightarrow> http_result \<Rightarrow> json" where
  "body_or d (Raised msg) = d"
| "body_or d (Response code b) =
     (if 400 \<le> code \<and> code < 600 then d else (case b of None \<Rightarrow> d | Some j \<Rightarrow> j))"

text \<open>The language breakdown fetched for the project at position \<open>j\<close> of \<open>recs\<close>: what the
  network answers to its request gives, when the log of requests is \<open>h\<close> followed by the
  requests for the projects before it.\<close>

definition fetched :: "net \<Rightarrow> api_url list \<Rightarrow> (string \<times> json) list list \<Rightarrow> nat \<Rightarrow> json" where
  "fetched nw h recs j =
     body_or (JObj []) (nw (h @ map languages_request (take j recs)) (languages_request (recs ! j)))"

text \<open>The panel of a project, as the specification describes it: drawn in column \<open>c\<close>
  under the spinner of the project, it is a pie chart of the breakdown with the project
  name as title, or, for an empty breakdown, the project name in bold and the caption
  that no language data is available.\<close>

fun slices_of :: "json \<Rightarrow> (string \<times> json) list" where
  "slices_of (JObj kvs) = kvs"
| "slices_of _ = []"

definition panel_place :: "container list \<Rightarrow> nat \<Rightarrow> (string \<times> json) list \<Rightarrow> container list" where
  "panel_place cx c p =
     cx @ [Column c, Spinner [Lit ''Getting languages for '', Val (get_or p ''name'' JNull),
                              Lit ''...'']]"

definition fallback_events ::
  "container list \<Rightarrow> nat \<Rightarrow> (string \<times> json) list \<Rightarrow> (container list \<times> element) list" where
  "fallback_events cx c p =
     [(panel_place cx c p, Write [Lit ''**'', Val (get_or p ''name'' JNull), Lit ''**'']),
      (panel_place cx c p, Caption ''No language data available.'')]"

definition panel_events ::
  "container list \<Rightarrow> nat \<Rightarrow> (string \<times> json) list \<Rightarrow> json \<Rightarrow> (container list \<times> element) list" where
  "panel_events cx c p languages =
     (if truthy languages
      then [(panel_place cx c p,
             Pyplot \<lparr>slices = slices_of languages, fig_title = get_or p ''name'' JNull\<rparr>)]
      else fallback_events cx c p)"

text \<open>The part of a screen that belongs to the per-project panels: the pie charts, and
  what is written and captioned.\<close>

fun in_panel :: "element \<Rightarrow> bool" where
  "in_panel (Pyplot fig) = True"
| "in_panel (Write t) = True"
| "in_panel (Caption t) = True"
| "in_panel _ = False"

definition panel_part :: "(container list \<times> element) list \<Rightarrow> (container list \<times> element) list" where
  "panel_part evs = filter (\<lambda>(c, e). in_panel e) evs"

text \<open>The bar charts on a screen.\<close>

fun bar_chart :: "element \<Rightarrow> frame option" where
  "bar_chart (BarChart fr) = Some fr"
| "bar_chart _ = None"

definition bar_charts :: "(container list \<times> element) list \<Rightarrow> frame list" where
  "bar_charts evs = List.map_filter (\<lambda>(c, e). bar_chart e) evs"

text \<open>The pie charts on a screen.\<close>

fun pie_chart :: "element \<Rightarrow> figure option" where
  "pie_chart (Pyplot fig) = Some fig"
| "pie_chart _ = None"

definition pie_charts :: "(container list \<times> element) list \<Rightarrow> figure list" where
  "pie_charts evs = List.map_filter (\<lambda>(c, e). pie_chart e) evs"

text \<open>What is shown after \<^verbatim>\<open>**Joined:**\<close> on a screen.\<close>

fun after_joined :: "element \<Rightarrow> fstring option" where
  "after_joined (Markdown (Lit l # rest)) = (if l = ''**Joined:** '' then Some rest else None)"
| "after_joined _ = None"

definition joined_shown :: "(container list \<times> element) list \<Rightarrow> fstring list" where
  "joined_shown evs = List.map_filter (\<lambda>(c, e). after_joined e) evs"



section \<open>Notions used in the proofs\<close>

text \<open>What the loop over the projects draws, pass by pass, from the log of requests
  \<open>h\<close> and the column \<open>c\<close> on.\<close>

fun loop_events ::
  "net \<Rightarrow> api_url list \<Rightarrow> container list \<Rightarrow> nat \<Rightarrow> (string \<times> json) list list
    \<Rightarrow> (container list \<times> element) list" where
  "loop_events nw h cx c [] = []"
| "loop_events nw h cx c (p # ps) =
     panel_events cx c p (body_or (JObj []) (nw h (languages_request p)))
       @ loop_events nw (h @ [languages_request p]) cx ((c + 1) mod 3) ps"

text \<open>What \<open>display_project_visuals\<close> draws before the loop, around the bar chart.\<close>

definition header_events :: "container list \<Rightarrow> frame \<Rightarrow> (container list \<times> element) list" where
  "header_events cx fr =
     [(cx, Subheader [Lit ''Project Visualizations'']),
      (cx, Markdown [Lit ''#### Project Popularity & Activity'']),
      (cx, BarChart fr),
      (cx, Markdown [Lit ''#### Language Breakdown per Project (Matplotlib)'']),
      (cx, Info ''Fetching language data for each project... this may take a moment.''),
      (cx, Columns [1, 1, 1])]"

text \<open>A piece of the program that only ever appends to the chat transcript.\<close>

definition grows :: "'a prog \<Rightarrow> bool" where
  "grows m = (\<forall>s. prefix (messages s) (messages (snd (m s))))"

text \<open>A piece of the program that leaves the selected user alone.\<close>

definition keeps_user :: "'a prog \<Rightarrow> bool" where
  "keeps_user m = (\<forall>s. user_data (snd (m s)) = user_data s)"

text \<open>A transcript that starts with the greeting.\<close>

definition greeted :: "state \<Rightarrow> bool" where
  "greeted s = (messages s \<noteq> [] \<and> hd (messages s) = greeting)"

section \<open>Example inputs\<close>

text \<open>A project without statistics, fifteen of them, and two projects whose statistics
  are a mapping and a string.\<close>

definition demo_project :: "int \<Rightarrow> (string \<times> json) list" where
  "demo_project i = [(''id'', JInt i), (''name'', JStr ''demo''), (''star_count'', JInt 3),
                     (''forks_count'', JInt 1)]"

definition fifteen_projects :: "(string \<times> json) list list" where
  "fifteen_projects = map demo_project [1, 2, 3, 4, 5, 6, 7, 8, 9, 10, 11, 12, 13, 14, 15]"

definition with_statistics :: "(string \<times> json) list" where
  "with_statistics = demo_project 1 @ [(''statistics'', JObj [(''commit_count'', JInt 12)])]"

definition broken_statistics :: "(string \<times> json) list" where
  "broken_statistics = demo_project 2 @ [(''statistics'', JStr ''n/a'')]"

text \<open>A network on which every project is written in Python, and one on which no user
  is found.\<close>

definition python_only :: net where
  "python_only = (\<lambda>h r. Response 200 (Some (JObj [(''Python'', JInt 100)])))"

definition nobody :: net where
  "nobody = (\<lambda>h r. Response 200 (Some (JArr [])))"

text \<open>A session in which the user alice is selected, and the submission of a username.\<close>

definition alice_selected :: state where
  "alice_selected =
     \<lparr>messages = [greeting], user_data = JObj [(''id'', JInt 42), (''username'', JStr ''alice'')],
      calls = [UsersByUsername ''alice''], screen = [], ctx = []\<rparr>"

definition ask_ghost :: input where
  "ask_ghost = \<lparr>prompt = Some ''ghost'', view_profile = False, view_visuals = False\<rparr>"

text \<open>A network on which no project has language data, and one on which only the project
  with id 2 has none.\<close>

definition no_languages :: net where
  "no_languages = (\<lambda>h r. Response 200 (Some (JObj [])))"


section \<open>Unfolding the program\<close>

lemmas prog_defs = returns_def raises_def lift_def and_then_def try_except_request_def
  with_block_def st_def gets_def set_user_data_def add_message_def

lemmas api_defs = requests_get_def raise_for_status_def response_json_def

lemmas seq_defs = returns_def raises_def lift_def and_then_def with_block_def st_def

section \<open>The API helper functions\<close>

text \<open>
  Claim C1. For every username, \<open>fetch_gitlab_user\<close> returns the first element of the
  array the endpoint answers with, whatever the length of the array, when the status
  lets \<^verbatim>\<open>raise_for_status\<close> pass; it returns \<^verbatim>\<open>None\<close> when the array is empty.
\<close>

theorem fetch_gitlab_user_first_match:
  "(nw (calls s) (UsersByUsername username) = Response code (Some (JArr (u # us)))
      \<longrightarrow> \<not> (400 \<le> code \<and> code < 600)
      \<longrightarrow> fst (fetch_gitlab_user nw username s) = Inr u)
   \<and> (nw (calls s) (UsersByUsername username) = Response code (Some (JArr []))
      \<longrightarrow> fst (fetch_gitlab_user nw username s) = Inr JNull)"
  by (simp add: fetch_gitlab_user_def prog_defs api_defs Let_def)

theorem fetch_gitlab_user_first_match_witness:
  "fst (fetch_gitlab_user
          (\<lambda>h r. Response 200 (Some (JArr [JObj [(''id'', JInt 42)], JObj [(''id'', JInt 43)]])))
          ''alice'' (new_session [])) = Inr (JObj [(''id'', JInt 42)])
   \<and> fst (fetch_gitlab_user (\<lambda>h r. Response 200 (Some (JArr []))) ''alice'' (new_session []))
       = Inr JNull"
  using fetch_gitlab_user_first_match
      [of "\<lambda>h r. Response 200 (Some (JArr [JObj [(''id'', JInt 42)], JObj [(''id'', JInt 43)]]))"
          "new_session []" "''alice''" 200 "JObj [(''id'', JInt 42)]" "[JObj [(''id'', JInt 43)]]"]
    fetch_gitlab_user_first_match
      [of "\<lambda>h r. Response 200 (Some (JArr []))" "new_session []" "''alice''" 200]
  by simp




section \<open>The profile view\<close>

lemma first_split_on: "first (split_on sep s) = Inr (takeWhile (\<lambda>c. c \<noteq> sep) s)"
  by (induction s) (auto split: list.splits)

lemma joined_string:
  "map_of kvs ''created_at'' = Some (JStr t) \<Longrightarrow>
   joined (JObj kvs) = Inr (takeWhile (\<lambda>c. c \<noteq> CHR ''T'') t)"
  by (simp add: joined_def first_split_on)

lemma joined_absent: "map_of kvs ''created_at'' = None \<Longrightarrow> joined (JObj kvs) = Inr ''N/A''"
  by (simp add: joined_def)

lemma get_JObj: "get (JObj kvs) k d = Inr (get_or kvs k d)"
  by (simp add: get_or_def split: option.splits)

lemma getitem_truthy:
  "truthy (get_or kvs k JNull) \<Longrightarrow> getitem (JObj kvs) k = Inr (get_or kvs k JNull)"
  by (auto simp: get_or_def split: option.splits)

lemma profile_joined:
  "joined (JObj kvs) = Inr d \<Longrightarrow>
   fst (display_full_profile (JObj kvs) s) = Inr () \<and>
   joined_shown (drawn (display_full_profile (JObj kvs)) s) = [[Val (JStr d)]]"
  by (simp add: display_full_profile_def drawn_def joined_shown_def prog_defs
      List.map_filter_simps get_JObj getitem_truthy del: get.simps getitem.simps)

text \<open>
  Claim C5. For every user record, the profile view shows after \<^verbatim>\<open>**Joined:**\<close> the part
  of the \<^verbatim>\<open>created_at\<close> string before its first \<^verbatim>\<open>T\<close> (all of it when it has none), and
  the text \<^verbatim>\<open>N/A\<close> when the record has no \<^verbatim>\<open>created_at\<close>; the view is drawn without an
  exception.
\<close>

theorem joined_value:
  "(map_of kvs ''created_at'' = Some (JStr t) \<longrightarrow>
      fst (display_full_profile (JObj kvs) s) = Inr () \<and>
      joined_shown (drawn (display_full_profile (JObj kvs)) s)
        = [[Val (JStr (takeWhile (\<lambda>c. c \<noteq> CHR ''T'') t))]])
   \<and> (map_of kvs ''created_at'' = None \<longrightarrow>
      fst (display_full_profile (JObj kvs) s) = Inr () \<and>
      joined_shown (drawn (display_full_profile (JObj kvs)) s) = [[Val (JStr ''N/A'')]])"
  using profile_joined joined_string joined_absent by blast

theorem joined_value_witness:
  "joined_shown (drawn (display_full_profile (JObj
      [(''id'', JInt 42), (''name'', JStr ''Alice A''), (''username'', JStr ''alice''),
       (''state'', JStr ''active''), (''created_at'', JStr ''2020-01-01T00:00:00Z'')]))
      (new_session [])) = [[Val (JStr ''2020-01-01'')]]
   \<and> joined_shown (drawn (display_full_profile (JObj [(''id'', JInt 42)])) (new_session []))
       = [[Val (JStr ''N/A'')]]"
  using joined_value [of "[(''id'', JInt 42), (''name'', JStr ''Alice A''),
        (''username'', JStr ''alice''), (''state'', JStr ''active''),
        (''created_at'', JStr ''2020-01-01T00:00:00Z'')]" "''2020-01-01T00:00:00Z''" "new_session []"]
    joined_value [of "[(''id'', JInt 42)]" "''x''" "new_session []"]
  by simp

section \<open>The project view\<close>

text \<open>
  Claim C7. For the empty project sequence \<open>display_project_visuals\<close> draws its heading
  and the notice that no projects are visible and returns: nothing else is drawn, so no
  bar chart, and the log of requests is unchanged, so no language breakdown is fetched.
\<close>

theorem no_projects:
  "display_project_visuals nw (JArr []) s =
     (Inr (), s\<lparr>screen := screen s @
        [(ctx s, Subheader [Lit ''Project Visualizations'']),
         (ctx s, Warning ''No projects found that are visible to you.'')]\<rparr>)
   \<and> calls (snd (display_project_visuals nw (JArr []) s)) = calls s
   \<and> bar_charts (drawn (display_project_visuals nw (JArr [])) s) = []"
  by (simp add: display_project_visuals_def prog_defs drawn_def bar_charts_def
      List.map_filter_simps)

lemma get_project_languages_eq:
  "get_project_languages nw i s =
     (Inr (body_or (JObj []) (nw (calls s) (ProjectLanguages i))),
      s\<lparr>calls := calls s @ [ProjectLanguages i]\<rparr>)"
  by (cases "nw (calls s) (ProjectLanguages i)")
     (auto simp add: get_project_languages_def prog_defs api_defs Let_def split: option.splits)

lemma fetch_user_projects_eq:
  "fetch_user_projects nw i s =
     (Inr (body_or (JArr []) (nw (calls s) (UserProjects i))),
      s\<lparr>calls := calls s @ [UserProjects i]\<rparr>)"
  by (cases "nw (calls s) (UserProjects i)")
     (auto simp add: fetch_user_projects_def prog_defs api_defs Let_def split: option.splits)

lemma percentage_not_negative: "percentage v \<Longrightarrow> \<not> negative_size v"
  by (induction v rule: negative_size.induct) auto

lemma breakdown_pie:
  assumes "breakdown l"
  shows "\<exists>kvs. l = JObj kvs \<and> kvs \<noteq> [] \<and> ax_pie kvs = Inr ()
            \<and> list_all (\<lambda>(language, size). plain language) kvs"
proof -
  from assms obtain kvs where l: "l = JObj kvs" by (cases l) simp_all
  from assms l have ne: "kvs \<noteq> []"
    and sizes: "\<forall>(language, size)\<in>set kvs. plain language \<and> percentage size"
    and pos: "\<exists>(language, size)\<in>set kvs. \<not> zero_size size"
    by (auto simp: list_all_iff list_ex_iff)
  from sizes have "\<not> list_ex (\<lambda>(language, size). negative_size size) kvs"
    by (auto simp: list_ex_iff dest: percentage_not_negative)
  moreover from sizes have "list_all (\<lambda>(language, size). percentage size) kvs"
    by (auto simp: list_all_iff)
  moreover from pos have "\<not> list_all (\<lambda>(language, size). zero_size size) kvs"
    by (auto simp: list_all_iff)
  ultimately have "ax_pie kvs = Inr ()" by (simp add: ax_pie_def)
  moreover from sizes have "list_all (\<lambda>(language, size). plain language) kvs"
    by (auto simp: list_all_iff)
  ultimately show ?thesis using l ne by blast
qed

lemma languages_reply_shape:
  "languages_reply r \<Longrightarrow> body_or (JObj []) r = JObj [] \<or> breakdown (body_or (JObj []) r)"
  by (induction r rule: languages_reply.induct) auto

lemma languages_chart_shape: "languages_chart r \<Longrightarrow> breakdown (body_or (JObj []) r)"
  by (induction r rule: languages_chart.induct) auto

lemma breakdown_truthy: "breakdown l \<Longrightarrow> truthy l"
  by (cases l) simp_all

lemma text_cell_Some: "text_cell x \<Longrightarrow> \<exists>t. x = Some (JStr t)"
  by (induction x rule: text_cell.induct) simp_all

lemma count_cell_Some: "count_cell x \<Longrightarrow> \<exists>i. x = Some (JInt i) \<and> 0 \<le> i \<and> i < 2 ^ 63"
  by (induction x rule: count_cell.induct) simp_all

lemma is_project_fields:
  assumes "is_project p"
  shows "getitem (JObj p) ''name'' = Inr (get_or p ''name'' JNull)"
    and "getitem (JObj p) ''id'' = Inr (get_or p ''id'' JNull)"
    and "plain_text (get_or p ''name'' JNull)"
  using assms
  by (auto simp: is_project_def has_chart_fields_def get_or_def dest!: text_cell_Some)

lemma fetched_eq:
  "fetched nw h recs j =
     body_or (JObj []) (nw (h @ map languages_request (take j recs)) (languages_request (recs ! j)))"
  by (simp add: fetched_def)

text \<open>One pass of the loop, on a project of the data model whose language request is
  answered as the data model says.\<close>

lemma language_panel_exact:
  assumes "is_project p" and "languages_reply (nw (calls s) (languages_request p))"
  shows "language_panel nw (JObj p) c s =
     (Inr (), s\<lparr>calls := calls s @ [languages_request p],
                screen := screen s @
                  panel_events (ctx s) c p (body_or (JObj []) (nw (calls s) (languages_request p)))\<rparr>)"
proof -
  let ?l = "body_or (JObj []) (nw (calls s) (languages_request p))"
  note fields = is_project_fields [OF assms(1)]
  from languages_reply_shape [OF assms(2)] have "?l = JObj [] \<or> breakdown ?l" .
  then show ?thesis
  proof
    assume empty: "?l = JObj []"
    then have "body_or (JObj []) (nw (calls s) (ProjectLanguages (get_or p ''id'' JNull))) = JObj []"
      by (simp add: languages_request_def)
    with empty show ?thesis
      by (simp add: language_panel_def seq_defs get_project_languages_eq fields
          panel_events_def fallback_events_def panel_place_def languages_request_def
          del: getitem.simps)
  next
    assume "breakdown ?l"
    from breakdown_pie [OF this] obtain kvs where l: "?l = JObj kvs" and ne: "kvs \<noteq> []"
      and pie: "ax_pie kvs = Inr ()"
      and labels: "list_all (\<lambda>(language, size). plain language) kvs"
      by blast
    from l have "body_or (JObj []) (nw (calls s) (ProjectLanguages (get_or p ''id'' JNull))) = JObj kvs"
      by (simp add: languages_request_def)
    with l ne pie labels show ?thesis
      by (simp add: language_panel_def seq_defs get_project_languages_eq fields
          panel_events_def panel_place_def st_pyplot_def languages_request_def
          del: getitem.simps)
  qed
qed

lemma language_loop_exact:
  assumes "list_all is_project ps"
    and "\<forall>h i. languages_reply (nw h (ProjectLanguages i))"
  shows "language_loop nw (map JObj ps) c s =
     (Inr (), s\<lparr>calls := calls s @ map languages_request ps,
                screen := screen s @ loop_events nw (calls s) (ctx s) c ps\<rparr>)"
  using assms(1)
proof (induction ps arbitrary: c s)
  case Nil
  show ?case by (simp add: returns_def)
next
  case (Cons p ps)
  from Cons.prems have p: "is_project p" and rest: "list_all is_project ps" by simp_all
  from assms(2) have "languages_reply (nw (calls s) (languages_request p))"
    by (simp add: languages_request_def)
  with p have first: "language_panel nw (JObj p) c s =
     (Inr (), s\<lparr>calls := calls s @ [languages_request p],
                screen := screen s @
                  panel_events (ctx s) c p (body_or (JObj []) (nw (calls s) (languages_request p)))\<rparr>)"
    by (rule language_panel_exact)
  show ?case
    by (simp add: and_then_def first Cons.IH [OF rest])
qed

lemma loop_events_index:
  "c < 3 \<Longrightarrow>
   loop_events nw h cx c ps =
     concat (map (\<lambda>j. panel_events cx ((c + j) mod 3) (ps ! j) (fetched nw h ps j))
                 [0..<length ps])"
proof (induction ps arbitrary: h c)
  case Nil
  show ?case by simp
next
  case (Cons p ps)
  from Cons.prems have c: "c mod 3 = c" by simp
  have next_col: "(c + 1) mod 3 < 3" by simp
  have shift: "map (\<lambda>j. panel_events cx ((c + j) mod 3) ((p # ps) ! j) (fetched nw h (p # ps) j))
                   [0..<length (p # ps)] =
      panel_events cx (c mod 3) p (fetched nw h (p # ps) 0) #
      map (\<lambda>j. panel_events cx ((c + Suc j) mod 3) (ps ! j) (fetched nw h (p # ps) (Suc j)))
          [0..<length ps]"
    by (simp add: upt_conv_Cons map_Suc_upt [symmetric] del: upt_Suc)
  have later: "fetched nw h (p # ps) (Suc j) = fetched nw (h @ [languages_request p]) ps j" for j
    by (simp add: fetched_eq)
  have now: "fetched nw h (p # ps) 0 = body_or (JObj []) (nw h (languages_request p))"
    by (simp add: fetched_eq)
  have col: "((c + 1) mod 3 + j) mod 3 = (c + Suc j) mod 3" for j
    by presburger
  show ?case
    unfolding shift loop_events.simps Cons.IH [OF next_col] later now col c by simp
qed

lemma bar_charts_append: "bar_charts (xs @ ys) = bar_charts xs @ bar_charts ys"
  by (simp add: bar_charts_def List.map_filter_def)

lemma pie_charts_append: "pie_charts (xs @ ys) = pie_charts xs @ pie_charts ys"
  by (simp add: pie_charts_def List.map_filter_def)

lemma panel_part_append: "panel_part (xs @ ys) = panel_part xs @ panel_part ys"
  by (simp add: panel_part_def)

lemma drawn_prefix:
  "prefix (screen s) (screen (snd (m s))) \<Longrightarrow> screen (snd (m s)) = screen s @ drawn m s"
  by (auto simp: prefix_def drawn_def)

text \<open>The loop over the projects draws no bar chart and removes nothing from the screen,
  on any input.\<close>

lemma st_pyplot_screen:
  "prefix (screen s) (screen (snd (st_pyplot fig s)))
   \<and> bar_charts (screen (snd (st_pyplot fig s))) = bar_charts (screen s)"
  by (simp add: st_pyplot_def st_def raises_def bar_charts_append)
     (simp add: bar_charts_def List.map_filter_simps)

lemma language_panel_screen:
  "prefix (screen s) (screen (snd (language_panel nw p c s)))
   \<and> bar_charts (screen (snd (language_panel nw p c s))) = bar_charts (screen s)"
proof (cases "getitem p ''name''")
  case (Inl e)
  then show ?thesis by (simp add: language_panel_def seq_defs)
next
  case name: (Inr n)
  show ?thesis
  proof (cases "getitem p ''id''")
    case (Inl e)
    with name show ?thesis by (simp add: language_panel_def seq_defs)
  next
    case pid: (Inr i)
    let ?r = "body_or (JObj []) (nw (calls s) (ProjectLanguages i))"
    show ?thesis
    proof (cases "truthy ?r")
      case False
      with name pid show ?thesis
        by (simp add: language_panel_def seq_defs get_project_languages_eq bar_charts_append)
           (simp add: bar_charts_def List.map_filter_simps)
    next
      case True
      show ?thesis
      proof (cases "items ?r")
        case (Inl e)
        with True name pid show ?thesis
          by (simp add: language_panel_def seq_defs get_project_languages_eq)
      next
        case slices: (Inr kvs)
        show ?thesis
        proof (cases "ax_pie kvs")
          case (Inl e)
          with slices True name pid show ?thesis
            by (simp add: language_panel_def seq_defs get_project_languages_eq)
        next
          case (Inr u)
          let ?s1 = "s\<lparr>ctx := ctx s @ [Column c, Spinner [Lit ''Getting languages for '', Val n, Lit ''...'']],
                        calls := calls s @ [ProjectLanguages i]\<rparr>"
          obtain r s2 where fig: "st_pyplot \<lparr>slices = kvs, fig_title = n\<rparr> ?s1 = (r, s2)"
            by (cases "st_pyplot \<lparr>slices = kvs, fig_title = n\<rparr> ?s1")
          from st_pyplot_screen [of ?s1 "\<lparr>slices = kvs, fig_title = n\<rparr>"] fig
          have "prefix (screen s) (screen s2)" "bar_charts (screen s2) = bar_charts (screen s)"
            by simp_all
          with Inr slices True name pid fig show ?thesis
            by (simp add: language_panel_def seq_defs get_project_languages_eq)
        qed
      qed
    qed
  qed
qed

lemma language_loop_screen:
  "prefix (screen s) (screen (snd (language_loop nw ps c s)))
   \<and> bar_charts (screen (snd (language_loop nw ps c s))) = bar_charts (screen s)"
proof (induction ps arbitrary: c s)
  case Nil
  show ?case by (simp add: returns_def)
next
  case (Cons p ps)
  obtain r s1 where step: "language_panel nw p c s = (r, s1)"
    by (cases "language_panel nw p c s")
  from language_panel_screen [of s nw p c] step
  have s1: "prefix (screen s) (screen s1)" "bar_charts (screen s1) = bar_charts (screen s)"
    by simp_all
  show ?case
  proof (cases r)
    case (Inl e)
    with step s1 show ?thesis by (simp add: and_then_def)
  next
    case (Inr u)
    with step have "language_loop nw (p # ps) c s = language_loop nw ps ((c + 1) mod 3) s1"
      by (simp add: and_then_def)
    with Cons.IH [of s1 "(c + 1) mod 3"] s1 show ?thesis
      by (auto intro: prefix_order.trans)
  qed
qed

text \<open>The bar chart of projects that have the fields of the chart.\<close>

lemma DataFrame_records: "DataFrame (JArr (map JObj recs)) = Inr recs"
  by (simp add: DataFrame_def list_all_iff comp_def)

lemma in_df_columns: "k \<in> set (df_columns df) \<longleftrightarrow> (\<exists>p\<in>set df. map_of p k \<noteq> None)"
  by (auto simp: df_columns_def map_of_eq_None_iff)

lemma count_cell_int: "count_cell x \<Longrightarrow> int_cell x"
  by (induction x rule: count_cell.induct) simp_all

lemma chart_fields_present:
  assumes "has_chart_fields p"
  shows "map_of p ''name'' \<noteq> None" "map_of p ''star_count'' \<noteq> None"
    "map_of p ''forks_count'' \<noteq> None"
  using assms
  by (auto simp: has_chart_fields_def dest: text_cell_Some count_cell_Some)

lemma selection_fields:
  assumes "recs \<noteq> []" and "list_all has_chart_fields recs"
  shows "selection recs =
     Inr (if list_ex (\<lambda>p. map_of p ''statistics'' \<noteq> None) recs
          then \<lparr>columns = [''star_count'', ''forks_count'', ''commit_count''],
                index = map (\<lambda>p. map_of p ''name'') recs,
                rows = map (\<lambda>p. [map_of p ''star_count'', map_of p ''forks_count'',
                                   Some (commit_count (map_of p ''statistics''))]) recs\<rparr>
          else \<lparr>columns = [''star_count'', ''forks_count''],
                index = map (\<lambda>p. map_of p ''name'') recs,
                rows = map (\<lambda>p. [map_of p ''star_count'', map_of p ''forks_count'']) recs\<rparr>)"
proof -
  from assms obtain p where p: "p \<in> set recs" "has_chart_fields p"
    by (cases recs) auto
  then have "list_all (\<lambda>k. k \<in> set (df_columns recs)) [''name'', ''star_count'', ''forks_count'']"
    unfolding in_df_columns using chart_fields_present [OF p(2)] by auto
  then show ?thesis
    unfolding selection_def in_df_columns list_ex_iff by simp
qed

lemma df_stats_fields:
  assumes "recs \<noteq> []" and "list_all has_chart_fields recs"
  shows "df_stats recs =
     Inr (if list_ex (\<lambda>p. map_of p ''statistics'' \<noteq> None) recs
          then \<lparr>columns = [''star_count'', ''forks_count'', ''commit_count''],
                index = map (\<lambda>p. map_of p ''name'') recs,
                rows = map (\<lambda>p. [map_of p ''star_count'', map_of p ''forks_count'',
                                   Some (commit_count (map_of p ''statistics''))]) recs\<rparr>
          else \<lparr>columns = [''star_count'', ''forks_count''],
                index = map (\<lambda>p. map_of p ''name'') recs,
                rows = map (\<lambda>p. [map_of p ''star_count'', map_of p ''forks_count'']) recs\<rparr>)"
proof -
  from assms(2) have cells: "\<forall>p\<in>set recs. text_cell (map_of p ''name'')
      \<and> int_cell (map_of p ''star_count'') \<and> int_cell (map_of p ''forks_count'')
      \<and> int_cell (Some (commit_count (map_of p ''statistics'')))"
    by (auto simp: list_all_iff has_chart_fields_def dest: count_cell_int)
  then show ?thesis
    unfolding df_stats_def selection_fields [OF assms]
    by (simp add: kept_as_is_def list_all_iff)
qed

lemma st_bar_chart_fields:
  assumes "list_all has_chart_fields recs"
  shows "st_bar_chart
     (if list_ex (\<lambda>p. map_of p ''statistics'' \<noteq> None) recs
      then \<lparr>columns = [''star_count'', ''forks_count'', ''commit_count''],
            index = map (\<lambda>p. map_of p ''name'') recs,
            rows = map (\<lambda>p. [map_of p ''star_count'', map_of p ''forks_count'',
                               Some (commit_count (map_of p ''statistics''))]) recs\<rparr>
      else \<lparr>columns = [''star_count'', ''forks_count''],
            index = map (\<lambda>p. map_of p ''name'') recs,
            rows = map (\<lambda>p. [map_of p ''star_count'', map_of p ''forks_count'']) recs\<rparr>) =
   st (BarChart
     (if list_ex (\<lambda>p. map_of p ''statistics'' \<noteq> None) recs
      then \<lparr>columns = [''star_count'', ''forks_count'', ''commit_count''],
            index = map (\<lambda>p. map_of p ''name'') recs,
            rows = map (\<lambda>p. [map_of p ''star_count'', map_of p ''forks_count'',
                               Some (commit_count (map_of p ''statistics''))]) recs\<rparr>
      else \<lparr>columns = [''star_count'', ''forks_count''],
            index = map (\<lambda>p. map_of p ''name'') recs,
            rows = map (\<lambda>p. [map_of p ''star_count'', map_of p ''forks_count'']) recs\<rparr>))"
proof -
  from assms have cells: "\<forall>p\<in>set recs. text_cell (map_of p ''name'')
      \<and> count_cell (map_of p ''star_count'') \<and> count_cell (map_of p ''forks_count'')
      \<and> count_cell (Some (commit_count (map_of p ''statistics'')))"
    by (auto simp: list_all_iff has_chart_fields_def)
  then show ?thesis
    by (simp add: st_bar_chart_def list_all_iff)
qed

lemma visuals_unfold:
  assumes "recs \<noteq> []" and "df_stats recs = Inr fr" and "st_bar_chart fr = st (BarChart fr)"
  shows "display_project_visuals nw (JArr (map JObj recs)) s =
     language_loop nw (map JObj (take 9 recs)) 0
       (s\<lparr>screen := screen s @ header_events (ctx s) fr\<rparr>)"
  using assms
  by (simp add: display_project_visuals_def seq_defs DataFrame_records take_map
      header_events_def)

lemma header_bar_charts: "bar_charts (xs @ header_events cx fr) = bar_charts xs @ [fr]"
  by (simp add: bar_charts_append) (simp add: bar_charts_def header_events_def List.map_filter_simps)

lemma header_pie_charts: "pie_charts (header_events cx fr) = []"
  by (simp add: pie_charts_def header_events_def List.map_filter_simps)

lemma header_panel_part: "panel_part (header_events cx fr) = []"
  by (simp add: panel_part_def header_events_def)

lemma visuals_bar_charts:
  assumes "recs \<noteq> []" and "df_stats recs = Inr fr" and "st_bar_chart fr = st (BarChart fr)"
  shows "bar_charts (drawn (display_project_visuals nw (JArr (map JObj recs))) s) = [fr]"
proof -
  let ?m = "display_project_visuals nw (JArr (map JObj recs))"
  let ?s1 = "s\<lparr>screen := screen s @ header_events (ctx s) fr\<rparr>"
  have eq: "?m s = language_loop nw (map JObj (take 9 recs)) 0 ?s1"
    by (rule visuals_unfold [OF assms])
  from language_loop_screen [of ?s1 nw "map JObj (take 9 recs)" 0]
  have pre: "prefix (screen ?s1) (screen (snd (?m s)))"
    and bars: "bar_charts (screen (snd (?m s))) = bar_charts (screen ?s1)"
    unfolding eq by simp_all
  have "prefix (screen s) (screen ?s1)" by simp
  from this pre have "prefix (screen s) (screen (snd (?m s)))"
    by (rule prefix_order.trans)
  then have "screen (snd (?m s)) = screen s @ drawn ?m s" by (rule drawn_prefix)
  then have "bar_charts (screen (snd (?m s))) = bar_charts (screen s) @ bar_charts (drawn ?m s)"
    by (simp add: bar_charts_append [symmetric])
  with bars show ?thesis by (simp add: header_bar_charts)
qed

text \<open>
  Claim C6, as stated, at a project without a \<^verbatim>\<open>statistics\<close> field: the bar chart has the
  two series \<^verbatim>\<open>star_count\<close> and \<^verbatim>\<open>forks_count\<close> and no commit count series.
\<close>

theorem bar_chart_series_counterexample:
  "map columns (bar_charts (drawn (display_project_visuals python_only
      (JArr (map JObj [demo_project 7]))) (new_session []))) = [[''star_count'', ''forks_count'']]"
proof -
  have "df_stats [demo_project 7] =
      Inr \<lparr>columns = [''star_count'', ''forks_count''],
           index = [Some (JStr ''demo'')],
           rows = [[Some (JInt 3), Some (JInt 1)]]\<rparr>"
    by (simp add: df_stats_def selection_def kept_as_is_def df_columns_def demo_project_def)
  moreover have "st_bar_chart \<lparr>columns = [''star_count'', ''forks_count''],
           index = [Some (JStr ''demo'')],
           rows = [[Some (JInt 3), Some (JInt 1)]]\<rparr> =
      st (BarChart \<lparr>columns = [''star_count'', ''forks_count''],
           index = [Some (JStr ''demo'')],
           rows = [[Some (JInt 3), Some (JInt 1)]]\<rparr>)"
    by (simp add: st_bar_chart_def)
  ultimately have "bar_charts (drawn (display_project_visuals python_only
      (JArr (map JObj [demo_project 7]))) (new_session [])) =
      [\<lparr>columns = [''star_count'', ''forks_count''],
           index = [Some (JStr ''demo'')],
           rows = [[Some (JInt 3), Some (JInt 1)]]\<rparr>]"
    by (intro visuals_bar_charts) simp_all
  then show ?thesis
    by simp
qed

text \<open>
  Claim C6, amended. For every non-empty sequence of projects that carry a string name and
  star, fork and commit counts that are non-negative integers of 64 bits,
  \<open>display_project_visuals\<close> draws one bar chart with one row per project, in input
  order. When at least one project has a \<^verbatim>\<open>statistics\<close> field the chart has the three
  series star count, fork count and commit count, where the commit count of a project is
  0 when its \<^verbatim>\<open>statistics\<close> is absent or not a mapping (and the \<^verbatim>\<open>commit_count\<close> entry of
  the mapping otherwise, 0 when the mapping has none). When no project has a
  \<^verbatim>\<open>statistics\<close> field the chart has the two series star count and fork count only.
\<close>

theorem bar_chart_series:
  assumes "recs \<noteq> []" and "list_all has_chart_fields recs"
  shows "bar_charts (drawn (display_project_visuals nw (JArr (map JObj recs))) s) =
      [if list_ex (\<lambda>p. map_of p ''statistics'' \<noteq> None) recs
       then \<lparr>columns = [''star_count'', ''forks_count'', ''commit_count''],
             index = map (\<lambda>p. map_of p ''name'') recs,
             rows = map (\<lambda>p. [map_of p ''star_count'', map_of p ''forks_count'',
                                Some (commit_count (map_of p ''statistics''))]) recs\<rparr>
       else \<lparr>columns = [''star_count'', ''forks_count''],
             index = map (\<lambda>p. map_of p ''name'') recs,
             rows = map (\<lambda>p. [map_of p ''star_count'', map_of p ''forks_count'']) recs\<rparr>]
    \<and> (\<forall>p. (\<forall>kvs. map_of p ''statistics'' \<noteq> Some (JObj kvs)) \<longrightarrow>
           commit_count (map_of p ''statistics'') = JInt 0)
    \<and> (\<forall>p kvs. map_of p ''statistics'' = Some (JObj kvs) \<longrightarrow>
           commit_count (map_of p ''statistics'') = get_or kvs ''commit_count'' (JInt 0))"
proof (intro conjI)
  show "bar_charts (drawn (display_project_visuals nw (JArr (map JObj recs))) s) =
      [if list_ex (\<lambda>p. map_of p ''statistics'' \<noteq> None) recs
       then \<lparr>columns = [''star_count'', ''forks_count'', ''commit_count''],
             index = map (\<lambda>p. map_of p ''name'') recs,
             rows = map (\<lambda>p. [map_of p ''star_count'', map_of p ''forks_count'',
                                Some (commit_count (map_of p ''statistics''))]) recs\<rparr>
       else \<lparr>columns = [''star_count'', ''forks_count''],
             index = map (\<lambda>p. map_of p ''name'') recs,
             rows = map (\<lambda>p. [map_of p ''star_count'', map_of p ''forks_count'']) recs\<rparr>]"
    by (rule visuals_bar_charts [OF assms(1) df_stats_fields [OF assms]
          st_bar_chart_fields [OF assms(2)]])
  show "\<forall>p. (\<forall>kvs. map_of p ''statistics'' \<noteq> Some (JObj kvs)) \<longrightarrow>
           commit_count (map_of p ''statistics'') = JInt 0"
  proof (intro allI impI)
    fix p :: "(string \<times> json) list"
    assume "\<forall>kvs. map_of p ''statistics'' \<noteq> Some (JObj kvs)"
    then show "commit_count (map_of p ''statistics'') = JInt 0"
      by (cases "map_of p ''statistics''" rule: commit_count.cases) auto
  qed
  show "\<forall>p kvs. map_of p ''statistics'' = Some (JObj kvs) \<longrightarrow>
           commit_count (map_of p ''statistics'') = get_or kvs ''commit_count'' (JInt 0)"
    by (simp add: get_or_def)
qed

theorem bar_chart_series_witness:
  "bar_charts (drawn (display_project_visuals python_only
      (JArr (map JObj [with_statistics, broken_statistics, demo_project 3]))) (new_session [])) =
     [\<lparr>columns = [''star_count'', ''forks_count'', ''commit_count''],
       index = [Some (JStr ''demo''), Some (JStr ''demo''), Some (JStr ''demo'')],
       rows = [[Some (JInt 3), Some (JInt 1), Some (JInt 12)],
               [Some (JInt 3), Some (JInt 1), Some (JInt 0)],
               [Some (JInt 3), Some (JInt 1), Some (JInt 0)]]\<rparr>]
   \<and> bar_charts (drawn (display_project_visuals python_only
      (JArr (map JObj [demo_project 1, demo_project 2]))) (new_session [])) =
     [\<lparr>columns = [''star_count'', ''forks_count''],
       index = [Some (JStr ''demo''), Some (JStr ''demo'')],
       rows = [[Some (JInt 3), Some (JInt 1)], [Some (JInt 3), Some (JInt 1)]]\<rparr>]
   \<and> commit_count (map_of broken_statistics ''statistics'') = JInt 0
   \<and> commit_count (map_of (demo_project 3) ''statistics'') = JInt 0
   \<and> commit_count (map_of with_statistics ''statistics'') = JInt 12"
proof -
  have h1: "[with_statistics, broken_statistics, demo_project 3] \<noteq> []"
    and h2: "list_all has_chart_fields [with_statistics, broken_statistics, demo_project 3]"
    and h3: "[demo_project 1, demo_project 2] \<noteq> []"
    and h4: "list_all has_chart_fields [demo_project 1, demo_project 2]"
    by (simp_all add: has_chart_fields_def with_statistics_def broken_statistics_def demo_project_def)
  from bar_chart_series [OF h1 h2, of python_only "new_session []"]
    bar_chart_series [OF h3 h4, of python_only "new_session []"]
  show ?thesis
    by (simp add: with_statistics_def broken_statistics_def demo_project_def)
qed

text \<open>The whole view, on projects of the data model whose language requests are answered
  as the data model says.\<close>

lemma is_project_chart_fields: "is_project p \<Longrightarrow> has_chart_fields p"
  by (simp add: is_project_def)

lemma visuals_exact:
  assumes "recs \<noteq> []" and "list_all is_project recs"
    and "\<forall>h i. languages_reply (nw h (ProjectLanguages i))"
    and "df_stats recs = Inr fr" and "st_bar_chart fr = st (BarChart fr)"
  shows "display_project_visuals nw (JArr (map JObj recs)) s =
     (Inr (), s\<lparr>calls := calls s @ map languages_request (take 9 recs),
                screen := screen s @ header_events (ctx s) fr @
                  loop_events nw (calls s) (ctx s) 0 (take 9 recs)\<rparr>)"
proof -
  from assms(2) have first9: "list_all is_project (take 9 recs)"
    by (auto simp: list_all_iff dest: in_set_takeD)
  show ?thesis
    unfolding visuals_unfold [OF assms(1,4,5)] language_loop_exact [OF first9 assms(3)]
    by simp
qed

lemma panel_part_panel_events: "panel_part (panel_events cx c p l) = panel_events cx c p l"
  by (simp add: panel_part_def panel_events_def fallback_events_def)

lemma panel_part_loop_events: "panel_part (loop_events nw h cx c ps) = loop_events nw h cx c ps"
  by (induction ps arbitrary: h c) (simp_all add: panel_part_append panel_part_panel_events, simp add: panel_part_def)

lemma pie_charts_panel_events:
  "truthy l \<Longrightarrow> map fig_title (pie_charts (panel_events cx c p l)) = [get_or p ''name'' JNull]"
  by (simp add: panel_events_def pie_charts_def List.map_filter_simps)

lemma pie_charts_loop_events:
  assumes "\<forall>h i. languages_chart (nw h (ProjectLanguages i))"
  shows "map fig_title (pie_charts (loop_events nw h cx c ps)) = map (\<lambda>p. get_or p ''name'' JNull) ps"
proof (induction ps arbitrary: h c)
  case Nil
  show ?case by (simp add: pie_charts_def List.map_filter_simps)
next
  case (Cons p ps)
  from assms have "languages_chart (nw h (languages_request p))"
    by (simp add: languages_request_def)
  then have "truthy (body_or (JObj []) (nw h (languages_request p)))"
    by (intro breakdown_truthy languages_chart_shape)
  then show ?case
    by (simp add: pie_charts_append pie_charts_panel_events Cons.IH)
qed

lemma first9_index:
  "concat (map (\<lambda>j. panel_events cx (j mod 3) (take 9 recs ! j) (fetched nw h (take 9 recs) j))
               [0..<length (take 9 recs)]) =
   concat (map (\<lambda>j. panel_events cx (j mod 3) (recs ! j) (fetched nw h recs j))
               [0..<min (length recs) 9])"
proof -
  have "map (\<lambda>j. panel_events cx (j mod 3) (take 9 recs ! j) (fetched nw h (take 9 recs) j))
            [0..<min (length recs) 9] =
        map (\<lambda>j. panel_events cx (j mod 3) (recs ! j) (fetched nw h recs j))
            [0..<min (length recs) 9]"
  proof (rule map_cong [OF refl])
    fix j assume "j \<in> set [0..<min (length recs) 9]"
    then have j: "j < 9" by simp
    then have "take 9 recs ! j = recs ! j" and "take j (take 9 recs) = take j recs"
      by (simp_all add: min_def)
    then show "panel_events cx (j mod 3) (take 9 recs ! j) (fetched nw h (take 9 recs) j) =
        panel_events cx (j mod 3) (recs ! j) (fetched nw h recs j)"
      by (simp add: fetched_eq)
  qed
  then show ?thesis by (simp only: length_take)
qed

lemma visuals_drawn:
  assumes "recs \<noteq> []" and "list_all is_project recs"
    and "\<forall>h i. languages_reply (nw h (ProjectLanguages i))"
    and "df_stats recs = Inr fr" and "st_bar_chart fr = st (BarChart fr)"
  shows "drawn (display_project_visuals nw (JArr (map JObj recs))) s =
     header_events (ctx s) fr @ loop_events nw (calls s) (ctx s) 0 (take 9 recs)"
  by (simp add: drawn_def visuals_exact [OF assms])

lemma visuals_panel_part:
  assumes "recs \<noteq> []" and "list_all is_project recs"
    and "\<forall>h i. languages_reply (nw h (ProjectLanguages i))"
  shows "fst (display_project_visuals nw (JArr (map JObj recs)) s) = Inr ()"
    and "calls (snd (display_project_visuals nw (JArr (map JObj recs)) s)) =
        calls s @ map languages_request (take (min (length recs) 9) recs)"
    and "panel_part (drawn (display_project_visuals nw (JArr (map JObj recs))) s) =
        concat (map (\<lambda>j. panel_events (ctx s) (j mod 3) (recs ! j) (fetched nw (calls s) recs j))
                    [0..<min (length recs) 9])"
    and "\<forall>h i. languages_chart (nw h (ProjectLanguages i)) \<Longrightarrow>
        map fig_title (pie_charts (drawn (display_project_visuals nw (JArr (map JObj recs))) s)) =
        map (\<lambda>p. get_or p ''name'' JNull) (take (min (length recs) 9) recs)"
proof -
  have cap: "take (min (length recs) 9) recs = take 9 recs"
    by (simp add: min_def)
  from assms(2) have fields: "list_all has_chart_fields recs"
    by (simp add: list_all_iff is_project_chart_fields)
  note fr = df_stats_fields [OF assms(1) fields] st_bar_chart_fields [OF fields]
  note exact = visuals_exact [OF assms fr]
  note shown = visuals_drawn [OF assms fr]
  show "fst (display_project_visuals nw (JArr (map JObj recs)) s) = Inr ()"
    by (simp add: exact)
  show "calls (snd (display_project_visuals nw (JArr (map JObj recs)) s)) =
        calls s @ map languages_request (take (min (length recs) 9) recs)"
    by (simp add: exact cap)
  have "panel_part (drawn (display_project_visuals nw (JArr (map JObj recs))) s) =
      loop_events nw (calls s) (ctx s) 0 (take 9 recs)"
    by (simp add: shown panel_part_append header_panel_part panel_part_loop_events)
  also have "\<dots> = concat (map (\<lambda>j. panel_events (ctx s) (j mod 3) (take 9 recs ! j)
                                      (fetched nw (calls s) (take 9 recs) j))
                             [0..<length (take 9 recs)])"
    by (simp add: loop_events_index)
  also note first9_index
  finally show "panel_part (drawn (display_project_visuals nw (JArr (map JObj recs))) s) =
        concat (map (\<lambda>j. panel_events (ctx s) (j mod 3) (recs ! j) (fetched nw (calls s) recs j))
                    [0..<min (length recs) 9])" .
  show "map fig_title (pie_charts (drawn (display_project_visuals nw (JArr (map JObj recs))) s)) =
        map (\<lambda>p. get_or p ''name'' JNull) (take (min (length recs) 9) recs)"
    if "\<forall>h i. languages_chart (nw h (ProjectLanguages i))"
    by (simp add: shown pie_charts_append header_pie_charts pie_charts_loop_events [OF that] cap)
qed

text \<open>
  Claim C3, as stated, at a project whose language breakdown comes back empty: the
  project receives its one language request and no chart.
\<close>

theorem language_charts_capped_counterexample:
  "fst (display_project_visuals no_languages (JArr (map JObj [demo_project 7])) (new_session []))
     = Inr ()
   \<and> calls (snd (display_project_visuals no_languages (JArr (map JObj [demo_project 7]))
                   (new_session []))) = [ProjectLanguages (JInt 7)]
   \<and> pie_charts (drawn (display_project_visuals no_languages (JArr (map JObj [demo_project 7])))
                   (new_session [])) = []"
proof -
  have fr: "df_stats [demo_project 7] =
      Inr \<lparr>columns = [''star_count'', ''forks_count''],
           index = [Some (JStr ''demo'')],
           rows = [[Some (JInt 3), Some (JInt 1)]]\<rparr>"
    by (simp add: df_stats_def selection_def kept_as_is_def df_columns_def demo_project_def)
  have chart: "st_bar_chart \<lparr>columns = [''star_count'', ''forks_count''],
           index = [Some (JStr ''demo'')],
           rows = [[Some (JInt 3), Some (JInt 1)]]\<rparr> =
      st (BarChart \<lparr>columns = [''star_count'', ''forks_count''],
           index = [Some (JStr ''demo'')],
           rows = [[Some (JInt 3), Some (JInt 1)]]\<rparr>)"
    by (simp add: st_bar_chart_def)
  have h1: "[demo_project 7] \<noteq> []" by simp
  have h2: "list_all is_project [demo_project 7]"
    by (simp add: is_project_def has_chart_fields_def demo_project_def get_or_def plain_def)
  have h3: "\<forall>h i. languages_reply (no_languages h (ProjectLanguages i))"
    by (simp add: no_languages_def)
  note exact = visuals_exact [OF h1 h2 h3 fr chart, of "new_session []"]
  show ?thesis
    unfolding drawn_def exact
    by (simp add: new_session_def no_languages_def languages_request_def demo_project_def
        get_or_def pie_charts_def header_events_def panel_events_def fallback_events_def
        List.map_filter_simps)
qed

text \<open>
  Claim C3, amended. For every non-empty sequence of \<open>n\<close> projects of the data model, with
  language requests answered by a failure, the empty mapping or a non-empty breakdown,
  \<open>display_project_visuals\<close> completes; the requests it sends are exactly one language
  request for each of the first \<open>min n 9\<close> projects, in input order; the per-project
  panels it draws are exactly one for each of those projects, in input order and in the
  columns 0, 1, 2, 0, ...: a pie chart of the fetched breakdown when that is not empty,
  the text fallback when it is empty, so that all of them are pie charts when every
  answer carries a non-empty breakdown; and the one bar chart it draws has the row of
  each of the \<open>n\<close> projects.
\<close>

theorem language_charts_capped:
  assumes "recs \<noteq> []" and "list_all is_project recs"
    and "\<forall>h i. languages_reply (nw h (ProjectLanguages i))"
  shows "fst (display_project_visuals nw (JArr (map JObj recs)) s) = Inr ()
    \<and> calls (snd (display_project_visuals nw (JArr (map JObj recs)) s)) =
        calls s @ map languages_request (take (min (length recs) 9) recs)
    \<and> panel_part (drawn (display_project_visuals nw (JArr (map JObj recs))) s) =
        concat (map (\<lambda>j. panel_events (ctx s) (j mod 3) (recs ! j) (fetched nw (calls s) recs j))
                    [0..<min (length recs) 9])
    \<and> ((\<forall>h i. languages_chart (nw h (ProjectLanguages i))) \<longrightarrow>
        map fig_title (pie_charts (drawn (display_project_visuals nw (JArr (map JObj recs))) s)) =
        map (\<lambda>p. get_or p ''name'' JNull) (take (min (length recs) 9) recs))
    \<and> bar_charts (drawn (display_project_visuals nw (JArr (map JObj recs))) s) =
        [if list_ex (\<lambda>p. map_of p ''statistics'' \<noteq> None) recs
         then \<lparr>columns = [''star_count'', ''forks_count'', ''commit_count''],
               index = map (\<lambda>p. map_of p ''name'') recs,
               rows = map (\<lambda>p. [map_of p ''star_count'', map_of p ''forks_count'',
                                  Some (commit_count (map_of p ''statistics''))]) recs\<rparr>
         else \<lparr>columns = [''star_count'', ''forks_count''],
               index = map (\<lambda>p. map_of p ''name'') recs,
               rows = map (\<lambda>p. [map_of p ''star_count'', map_of p ''forks_count'']) recs\<rparr>]"
proof -
  from assms(2) have fields: "list_all has_chart_fields recs"
    by (simp add: list_all_iff is_project_chart_fields)
  note bars = visuals_bar_charts [OF assms(1) df_stats_fields [OF assms(1) fields]
      st_bar_chart_fields [OF fields], of nw s]
  from visuals_panel_part [OF assms, of s] bars show ?thesis
    by blast
qed

theorem language_charts_capped_witness:
  "length fifteen_projects = 15
   \<and> calls (snd (display_project_visuals python_only (JArr (map JObj fifteen_projects))
                   (new_session []))) =
       map (\<lambda>i. ProjectLanguages (JInt i)) [1, 2, 3, 4, 5, 6, 7, 8, 9]
   \<and> length (pie_charts (drawn (display_project_visuals python_only
                   (JArr (map JObj fifteen_projects))) (new_session []))) = 9
   \<and> map (\<lambda>fr. length (rows fr)) (bar_charts (drawn (display_project_visuals python_only
                   (JArr (map JObj fifteen_projects))) (new_session []))) = [15]"
proof -
  have h1: "fifteen_projects \<noteq> []"
    by (simp add: fifteen_projects_def)
  have h2: "list_all is_project fifteen_projects"
    by (simp add: fifteen_projects_def is_project_def has_chart_fields_def demo_project_def
        get_or_def plain_def)
  have h3: "\<forall>h i. languages_reply (python_only h (ProjectLanguages i))"
    by (simp add: python_only_def plain_def)
  have h4: "\<forall>h i. languages_chart (python_only h (ProjectLanguages i))"
    by (simp add: python_only_def plain_def)
  have ids: "map languages_request (take 9 fifteen_projects) =
      map (\<lambda>i. ProjectLanguages (JInt i)) [1, 2, 3, 4, 5, 6, 7, 8, 9]"
    by (simp add: fifteen_projects_def demo_project_def get_or_def languages_request_def)
  have len: "length fifteen_projects = 15"
    by (simp add: fifteen_projects_def)
  have none: "\<not> list_ex (\<lambda>p. map_of p ''statistics'' \<noteq> None) fifteen_projects"
    by (simp add: fifteen_projects_def demo_project_def)
  let ?m = "display_project_visuals python_only (JArr (map JObj fifteen_projects))"
  note capped = language_charts_capped [OF h1 h2 h3, of "new_session []"]
  from capped ids len
  have log: "calls (snd (?m (new_session []))) =
      map (\<lambda>i. ProjectLanguages (JInt i)) [1, 2, 3, 4, 5, 6, 7, 8, 9]"
    by (simp add: new_session_def)
  from capped h4 len
  have "length (map fig_title (pie_charts (drawn ?m (new_session [])))) = 9"
    by simp
  then have pies: "length (pie_charts (drawn ?m (new_session []))) = 9"
    by simp
  from capped none len
  have bars: "map (\<lambda>fr. length (rows fr)) (bar_charts (drawn ?m (new_session []))) = [15]"
    by simp
  from len log pies bars show ?thesis
    by simp
qed



section \<open>The chat transcript\<close>

named_theorems grows_intros

lemma grows_returns [grows_intros]: "grows (returns x)"
  by (simp add: grows_def returns_def)

lemma grows_raises [grows_intros]: "grows (raises e)"
  by (simp add: grows_def raises_def)

lemma grows_lift [grows_intros]: "grows (lift r)"
  by (simp add: grows_def lift_def)

lemma grows_st [grows_intros]: "grows (st e)"
  by (simp add: grows_def st_def)

lemma grows_gets [grows_intros]: "grows (gets f)"
  by (simp add: grows_def gets_def)

lemma grows_set_user_data [grows_intros]: "grows (set_user_data u)"
  by (simp add: grows_def set_user_data_def)

lemma grows_add_message [grows_intros]: "grows (add_message r c)"
  by (simp add: grows_def add_message_def)

lemma grows_and_then [grows_intros]:
  assumes "grows m" and "\<And>x. grows (f x)"
  shows "grows (and_then m f)"
  unfolding grows_def
proof
  fix s
  obtain r s1 where m: "m s = (r, s1)" by (cases "m s")
  from assms(1) m have p1: "prefix (messages s) (messages s1)"
    by (auto simp: grows_def dest: spec [of _ s])
  show "prefix (messages s) (messages (snd (and_then m f s)))"
  proof (cases r)
    case (Inl e)
    with m p1 show ?thesis by (simp add: and_then_def)
  next
    case (Inr x)
    from assms(2) [of x] have "prefix (messages s1) (messages (snd (f x s1)))"
      by (simp add: grows_def)
    with p1 have "prefix (messages s) (messages (snd (f x s1)))"
      by (rule prefix_order.trans)
    with m Inr show ?thesis by (simp add: and_then_def)
  qed
qed

lemma grows_try [grows_intros]:
  assumes "grows m" and "\<And>e. grows (h e)"
  shows "grows (try_except_request m h)"
  unfolding grows_def
proof
  fix s
  obtain r s1 where m: "m s = (r, s1)" by (cases "m s")
  from assms(1) m have p1: "prefix (messages s) (messages s1)"
    by (auto simp: grows_def dest: spec [of _ s])
  show "prefix (messages s) (messages (snd (try_except_request m h s)))"
  proof (cases "\<exists>e. r = Inl (RequestException e)")
    case True
    then obtain e where e: "r = Inl (RequestException e)" by blast
    from assms(2) [of e] have "prefix (messages s1) (messages (snd (h e s1)))"
      by (simp add: grows_def)
    with p1 have "prefix (messages s) (messages (snd (h e s1)))"
      by (rule prefix_order.trans)
    with m e show ?thesis by (simp add: try_except_request_def)
  next
    case False
    with m have "try_except_request m h s = (r, s1)"
      by (auto simp: try_except_request_def split: sum.splits exn.splits)
    with p1 show ?thesis by simp
  qed
qed

lemma grows_with_block [grows_intros]:
  assumes "grows m"
  shows "grows (with_block c m)"
  unfolding grows_def
proof
  fix s
  from assms have "prefix (messages (s\<lparr>ctx := ctx s @ [c]\<rparr>)) (messages (snd (m (s\<lparr>ctx := ctx s @ [c]\<rparr>))))"
    unfolding grows_def by (rule spec)
  then show "prefix (messages s) (messages (snd (with_block c m s)))"
    by (auto simp add: with_block_def split: prod.splits)
qed

lemma grows_if [grows_intros]: "grows a \<Longrightarrow> grows b \<Longrightarrow> grows (if c then a else b)"
  by simp

lemma grows_case_option [grows_intros]:
  "grows a \<Longrightarrow> (\<And>x. grows (f x)) \<Longrightarrow> grows (case opt of None \<Rightarrow> a | Some x \<Rightarrow> f x)"
  by (cases opt) simp_all

lemma grows_requests_get [grows_intros]: "grows (requests_get nw url)"
  by (simp add: grows_def requests_get_def Let_def split: http_result.splits)

lemma grows_raise_for_status [grows_intros]: "grows (raise_for_status r)"
  unfolding raise_for_status_def by (intro grows_intros)

lemma grows_response_json [grows_intros]: "grows (response_json r)"
  unfolding response_json_def by (intro grows_intros)

lemma grows_fetch_gitlab_user [grows_intros]: "grows (fetch_gitlab_user nw u)"
  unfolding fetch_gitlab_user_def by (intro grows_intros)

lemma grows_fetch_user_projects [grows_intros]: "grows (fetch_user_projects nw i)"
  unfolding fetch_user_projects_def by (intro grows_intros)

lemma grows_get_project_languages [grows_intros]: "grows (get_project_languages nw i)"
  unfolding get_project_languages_def by (intro grows_intros)

lemma grows_st_bar_chart [grows_intros]: "grows (st_bar_chart data)"
  unfolding st_bar_chart_def by (intro grows_intros)

lemma grows_st_pyplot [grows_intros]: "grows (st_pyplot fig)"
  unfolding st_pyplot_def by (intro grows_intros)

lemma grows_display_full_profile [grows_intros]: "grows (display_full_profile user)"
  unfolding display_full_profile_def by (intro grows_intros)

lemma grows_language_panel [grows_intros]: "grows (language_panel nw p c)"
  unfolding language_panel_def by (intro grows_intros)

lemma grows_language_loop [grows_intros]: "grows (language_loop nw ps c)"
  by (induction ps arbitrary: c) (simp_all add: grows_intros)

lemma grows_display_project_visuals [grows_intros]: "grows (display_project_visuals nw projects)"
  unfolding display_project_visuals_def by (intro grows_intros)

lemma grows_render_messages [grows_intros]: "grows (render_messages ms)"
  by (induction ms) (simp_all add: grows_intros)

lemma grows_handle_prompt [grows_intros]: "grows (handle_prompt nw p)"
  unfolding handle_prompt_def by (intro grows_intros)

lemma grows_view_buttons [grows_intros]: "grows (view_buttons nw inp)"
  unfolding view_buttons_def by (intro grows_intros)

lemma grows_script [grows_intros]: "grows (script nw inp)"
  unfolding script_def by (intro grows_intros)

lemma run_prefix: "prefix (messages s) (messages (snd (run nw inp s)))"
  using grows_script [of nw inp] by (auto simp: grows_def run_def dest: spec [of _ "s\<lparr>screen := [], ctx := []\<rparr>"])

lemma interaction_prefix: "prefix (messages s) (messages (snd (interaction nw inp s)))"
proof -
  obtain r s1 where r: "run nw inp s = (r, s1)" by (cases "run nw inp s")
  from run_prefix [of s nw inp] r have p1: "prefix (messages s) (messages s1)" by simp
  show ?thesis
  proof (cases "r = Inl RerunException")
    case True
    from p1 run_prefix [of s1 nw no_input]
    have "prefix (messages s) (messages (snd (run nw no_input s1)))"
      by (rule prefix_order.trans)
    with r True show ?thesis by (simp add: interaction_def)
  next
    case False
    with r have "interaction nw inp s = (r, s1)"
      by (auto simp: interaction_def split: sum.splits exn.splits)
    with p1 show ?thesis by simp
  qed
qed

text \<open>
  Claim C8. The chat transcript is append-only: after an interaction, after a single run
  of the script, and after each handler (the chat input handler, the view buttons), the
  message sequence of before is a prefix of the message sequence of after, so no message
  has been changed, moved or removed; \<open>add_message\<close> appends one message at the end.
\<close>

theorem transcript_append_only:
  "prefix (messages s) (messages (snd (interaction nw inp s)))
   \<and> prefix (messages s) (messages (snd (run nw inp s)))
   \<and> prefix (messages s) (messages (snd (handle_prompt nw p s)))
   \<and> prefix (messages s) (messages (snd (view_buttons nw inp s)))
   \<and> messages (snd (add_message r c s)) = messages s @ [\<lparr>role = r, content = c\<rparr>]"
  using interaction_prefix [of s nw inp] run_prefix [of s nw inp]
    grows_handle_prompt [of nw p] grows_view_buttons [of nw inp]
  by (simp add: grows_def add_message_def)

section \<open>The selected user\<close>

named_theorems keeps_intros

lemma keeps_returns [keeps_intros]: "keeps_user (returns x)"
  by (simp add: keeps_user_def returns_def)

lemma keeps_raises [keeps_intros]: "keeps_user (raises e)"
  by (simp add: keeps_user_def raises_def)

lemma keeps_lift [keeps_intros]: "keeps_user (lift r)"
  by (simp add: keeps_user_def lift_def)

lemma keeps_st [keeps_intros]: "keeps_user (st e)"
  by (simp add: keeps_user_def st_def)

lemma keeps_and_then [keeps_intros]:
  assumes "keeps_user m" and "\<And>x. keeps_user (f x)"
  shows "keeps_user (and_then m f)"
  unfolding keeps_user_def
proof
  fix s
  obtain r s1 where m: "m s = (r, s1)" by (cases "m s")
  from assms(1) m have u1: "user_data s1 = user_data s"
    by (auto simp: keeps_user_def dest: spec [of _ s])
  show "user_data (snd (and_then m f s)) = user_data s"
  proof (cases r)
    case (Inl e)
    with m u1 show ?thesis by (simp add: and_then_def)
  next
    case (Inr x)
    from assms(2) [of x] have "user_data (snd (f x s1)) = user_data s1"
      by (simp add: keeps_user_def)
    with m Inr u1 show ?thesis by (simp add: and_then_def)
  qed
qed

lemma keeps_try [keeps_intros]:
  assumes "keeps_user m" and "\<And>e. keeps_user (h e)"
  shows "keeps_user (try_except_request m h)"
  unfolding keeps_user_def
proof
  fix s
  obtain r s1 where m: "m s = (r, s1)" by (cases "m s")
  from assms(1) m have u1: "user_data s1 = user_data s"
    by (auto simp: keeps_user_def dest: spec [of _ s])
  show "user_data (snd (try_except_request m h s)) = user_data s"
  proof (cases "\<exists>e. r = Inl (RequestException e)")
    case True
    then obtain e where e: "r = Inl (RequestException e)" by blast
    from assms(2) [of e] have "user_data (snd (h e s1)) = user_data s1"
      by (simp add: keeps_user_def)
    with m e u1 show ?thesis by (simp add: try_except_request_def)
  next
    case False
    with m have "try_except_request m h s = (r, s1)"
      by (auto simp: try_except_request_def split: sum.splits exn.splits)
    with u1 show ?thesis by simp
  qed
qed

lemma keeps_if [keeps_intros]:
  "keeps_user a \<Longrightarrow> keeps_user b \<Longrightarrow> keeps_user (if c then a else b)"
  by simp

lemma keeps_requests_get [keeps_intros]: "keeps_user (requests_get nw url)"
  by (simp add: keeps_user_def requests_get_def Let_def split: http_result.splits)

lemma keeps_raise_for_status [keeps_intros]: "keeps_user (raise_for_status r)"
  unfolding raise_for_status_def by (intro keeps_intros)

lemma keeps_response_json [keeps_intros]: "keeps_user (response_json r)"
  unfolding response_json_def by (cases "body r") (simp_all add: keeps_intros)

lemma keeps_fetch_gitlab_user: "keeps_user (fetch_gitlab_user nw u)"
  unfolding fetch_gitlab_user_def by (intro keeps_intros)

text \<open>The value \<open>fetch_gitlab_user\<close> returns depends on the state through the log of
  requests only.\<close>

lemma fetch_gitlab_user_result:
  "calls t = calls s \<Longrightarrow> fst (fetch_gitlab_user nw u t) = fst (fetch_gitlab_user nw u s)"
  by (cases "nw (calls s) (UsersByUsername u)")
     (auto simp add: fetch_gitlab_user_def prog_defs api_defs Let_def
       split: option.splits sum.splits exn.splits)

lemma render_messages_eq:
  "render_messages ms s =
     (Inr (), s\<lparr>screen := screen s @
        map (\<lambda>m. (ctx s @ [ChatMessage (role m)], Markdown (content m))) ms\<rparr>)"
  by (induction ms arbitrary: s) (simp_all add: prog_defs)

lemma handle_prompt_not_found:
  assumes "fst (fetch_gitlab_user nw p s) = Inr JNull"
  shows "fst (handle_prompt nw p s) = Inl RerunException
    \<and> user_data (snd (handle_prompt nw p s)) = JNull"
proof -
  let ?s2 = "s\<lparr>messages := messages s @ [\<lparr>role = ''user'', content = [Lit p]\<rparr>],
               user_data := JNull,
               ctx := ctx s @ [Spinner [Lit (''Searching for '' @ [CHR 0x27]), Val (JStr p),
                                        Lit (CHR 0x27 # ''...'')]]\<rparr>"
  obtain r s3 where f: "fetch_gitlab_user nw p ?s2 = (r, s3)"
    by (cases "fetch_gitlab_user nw p ?s2")
  have "fst (fetch_gitlab_user nw p ?s2) = fst (fetch_gitlab_user nw p s)"
    by (rule fetch_gitlab_user_result) simp
  with assms f have r: "r = Inr JNull" by simp
  from keeps_fetch_gitlab_user [of nw p] f have u: "user_data s3 = JNull"
    by (auto simp: keeps_user_def dest: spec [of _ ?s2])
  from f r u show ?thesis
    by (simp add: handle_prompt_def returns_def raises_def and_then_def with_block_def
        set_user_data_def add_message_def)
qed

lemma run_no_input:
  assumes "\<not> truthy (user_data s)"
  shows "fst (run nw no_input s) = Inr () \<and> user_data (snd (run nw no_input s)) = user_data s"
  using assms
  by (simp add: run_def script_def no_input_def render_messages_eq returns_def and_then_def
      st_def gets_def add_message_def)

text \<open>A run of the script draws the title, the transcript (after adding the greeting to
  an empty one) and the chat input, and then handles the input.\<close>

lemma script_after_history:
  "script nw inp s =
     and_then (case prompt inp of
                 None \<Rightarrow> returns ()
               | Some p \<Rightarrow> if p \<noteq> [] then handle_prompt nw p else returns ()) (\<lambda>_.
     and_then (gets user_data) (\<lambda>user.
     if truthy user then view_buttons nw inp else returns ()))
     (s\<lparr>messages := (if messages s = [] then [greeting] else messages s),
        screen := screen s @
          (ctx s, Title ([CHR 0xF0, CHR 0x9F, CHR 0xA4, CHR 0x96] @ '' GitLab Advanced Profiler'')) #
          map (\<lambda>m. (ctx s @ [ChatMessage (role m)], Markdown (content m)))
            (if messages s = [] then [greeting] else messages s) @
          [(ctx s, ChatInput ''Enter a username...'')]\<rparr>)"
proof (cases "messages s = []")
  case True
  then show ?thesis
    by (simp add: script_def and_then_def st_def gets_def add_message_def returns_def
        render_messages_eq greeting_def)
next
  case False
  then show ?thesis
    by (simp add: script_def and_then_def st_def gets_def add_message_def returns_def
        render_messages_eq)
qed

text \<open>
  Claim C9. For every submitted username whose lookup returns \<^verbatim>\<open>None\<close>, the interaction
  completes and leaves no user selected: \<open>user_data\<close> is \<^verbatim>\<open>None\<close> afterwards, whatever user
  was selected before.
\<close>

theorem not_found_returns_to_idle:
  assumes "prompt inp = Some p" and "p \<noteq> []"
    and "fst (fetch_gitlab_user nw p s) = Inr JNull"
  shows "fst (interaction nw inp s) = Inr ()
    \<and> user_data (snd (interaction nw inp s)) = JNull"
proof -
  let ?s0 = "s\<lparr>screen := [], ctx := []\<rparr>"
  let ?s4 = "?s0\<lparr>messages := (if messages ?s0 = [] then [greeting] else messages ?s0),
        screen := screen ?s0 @
          (ctx ?s0, Title ([CHR 0xF0, CHR 0x9F, CHR 0xA4, CHR 0x96] @ '' GitLab Advanced Profiler'')) #
          map (\<lambda>m. (ctx ?s0 @ [ChatMessage (role m)], Markdown (content m)))
            (if messages ?s0 = [] then [greeting] else messages ?s0) @
          [(ctx ?s0, ChatInput ''Enter a username...'')]\<rparr>"
  have "fst (fetch_gitlab_user nw p ?s4) = fst (fetch_gitlab_user nw p s)"
    by (rule fetch_gitlab_user_result) simp
  with assms(3) have "fst (fetch_gitlab_user nw p ?s4) = Inr JNull" by simp
  from handle_prompt_not_found [OF this]
  obtain s7 where hp: "handle_prompt nw p ?s4 = (Inl RerunException, s7)"
    and u7: "user_data s7 = JNull"
    by (cases "handle_prompt nw p ?s4") auto
  have "run nw inp s = (Inl RerunException, s7)"
    unfolding run_def script_after_history using assms(1,2) hp
    by (simp add: and_then_def)
  then have "interaction nw inp s = run nw no_input s7"
    by (simp add: interaction_def)
  with run_no_input [of s7 nw] u7 show ?thesis
    by simp
qed

theorem not_found_returns_to_idle_witness:
  "truthy (user_data alice_selected)
   \<and> fst (fetch_gitlab_user nobody ''ghost'' alice_selected) = Inr JNull
   \<and> fst (interaction nobody ask_ghost alice_selected) = Inr ()
   \<and> user_data (snd (interaction nobody ask_ghost alice_selected)) = JNull"
proof -
  have h1: "prompt ask_ghost = Some ''ghost''" by (simp add: ask_ghost_def)
  have h2: "''ghost'' \<noteq> []" by simp
  have h3: "fst (fetch_gitlab_user nobody ''ghost'' alice_selected) = Inr JNull"
    by (simp add: fetch_gitlab_user_def nobody_def prog_defs api_defs Let_def)
  have h4: "truthy (user_data alice_selected)" by (simp add: alice_selected_def)
  from not_found_returns_to_idle [OF h1 h2 h3] h3 h4 show ?thesis by simp
qed

section \<open>The greeting\<close>

lemma greeted_grows:
  assumes "greeted s" and "grows m"
  shows "greeted (snd (m s))"
proof -
  from assms(2) have "prefix (messages s) (messages (snd (m s)))"
    by (simp add: grows_def)
  then obtain zs where "messages (snd (m s)) = messages s @ zs"
    by (auto simp: prefix_def)
  with assms(1) show ?thesis
    by (simp add: greeted_def)
qed

lemma script_greeted:
  assumes "messages s = [] \<or> greeted s"
  shows "greeted (snd (script nw inp s))"
  unfolding script_after_history
proof (rule greeted_grows)
  from assms
  show "greeted
     (s\<lparr>messages := (if messages s = [] then [greeting] else messages s),
        screen := screen s @
          (ctx s, Title ([CHR 0xF0, CHR 0x9F, CHR 0xA4, CHR 0x96] @ '' GitLab Advanced Profiler'')) #
          map (\<lambda>m. (ctx s @ [ChatMessage (role m)], Markdown (content m)))
            (if messages s = [] then [greeting] else messages s) @
          [(ctx s, ChatInput ''Enter a username...'')]\<rparr>)"
    by (auto simp: greeted_def)
  show "grows
     (and_then (case prompt inp of
                 None \<Rightarrow> returns ()
               | Some p \<Rightarrow> if p \<noteq> [] then handle_prompt nw p else returns ()) (\<lambda>_.
      and_then (gets user_data) (\<lambda>user.
      if truthy user then view_buttons nw inp else returns ())))"
    by (intro grows_intros)
qed

lemma run_greeted:
  assumes "messages s = [] \<or> greeted s"
  shows "greeted (snd (run nw inp s))"
  unfolding run_def using assms by (intro script_greeted) (simp add: greeted_def)

lemma interaction_greeted:
  assumes "messages s = [] \<or> greeted s"
  shows "greeted (snd (interaction nw inp s))"
proof -
  obtain r s1 where r: "run nw inp s = (r, s1)" by (cases "run nw inp s")
  from run_greeted [OF assms, of nw inp] r have g1: "greeted s1" by simp
  show ?thesis
  proof (cases "r = Inl RerunException")
    case True
    from g1 have "greeted (snd (run nw no_input s1))"
      by (intro run_greeted) simp
    with r True show ?thesis by (simp add: interaction_def)
  next
    case False
    with r have "interaction nw inp s = (r, s1)"
      by (auto simp: interaction_def split: sum.splits exn.splits)
    with g1 show ?thesis by simp
  qed
qed

lemma session_greeted:
  "messages (session_after history steps) = [] \<or> greeted (session_after history steps)"
proof (induction steps rule: rev_induct)
  case Nil
  show ?case by (simp add: session_after_def new_session_def)
next
  case (snoc step steps)
  obtain nw inp where step: "step = (nw, inp)" by (cases step)
  have "session_after history (steps @ [step]) =
      snd (interaction nw inp (session_after history steps))"
    by (simp add: session_after_def step)
  with snoc show ?case by (simp add: interaction_greeted)
qed

text \<open>
  Claim C10. In every state a session can reach, a non-empty transcript starts with the
  greeting of the assistant; in particular its first message is not a user message.
\<close>

theorem greeting_first:
  assumes "messages (session_after history steps) \<noteq> []"
  shows "hd (messages (session_after history steps)) = greeting
    \<and> role (hd (messages (session_after history steps))) = ''assistant''
    \<and> content (hd (messages (session_after history steps))) =
        [Lit ''Hi there! Enter a GitLab username to begin profiling.'']"
  using session_greeted [of history steps] assms
  by (simp add: greeted_def greeting_def)

theorem greeting_first_witness:
  "length (messages (session_after [] [(nobody, ask_ghost)])) = 3
   \<and> hd (messages (session_after [] [(nobody, ask_ghost)])) = greeting
   \<and> role (hd (messages (session_after [] [(nobody, ask_ghost)]))) = ''assistant''"
proof -
  have ms: "messages (session_after [] [(nobody, ask_ghost)]) =
      [greeting, \<lparr>role = ''user'', content = [Lit ''ghost'']\<rparr>,
       \<lparr>role = ''assistant'',
        content = [Lit (''Sorry, I couldn't find a user with the username '' @ [CHR 0x27]),
                   Val (JStr ''ghost''), Lit (CHR 0x27 # ''.'')]\<rparr>]"
    by (simp add: session_after_def interaction_def run_def script_def handle_prompt_def
        fetch_gitlab_user_def nobody_def ask_ghost_def new_session_def no_input_def
        greeting_def prog_defs api_defs Let_def)
  then have ne: "messages (session_after [] [(nobody, ask_ghost)]) \<noteq> []"
    by simp
  from greeting_first [OF ne] ms show ?thesis by simp
qed

end
